theory Spec2Isabelle
  imports Complex_Main
begin

section \<open>The numerical substrate\<close>

text \<open>
  The module \<^verbatim>\<open>Experiments/model.py\<close> defines three classes, \<^verbatim>\<open>ResGCNLayer\<close>,
  \<^verbatim>\<open>WeightAndSum\<close> and \<^verbatim>\<open>MTGL_ADMET\<close>, on top of a tensor library and a graph
  library. This section models what those libraries do for the calls the module makes:
  a tensor is its shape together with its entries, an operation checks the shapes it is
  given and either faults or returns a tensor. Entries are real numbers: rounding of
  machine floats is not represented, so nothing below speaks about tolerances.
  A dimension fault of the libraries (a \<^verbatim>\<open>RuntimeError\<close> of the tensor library) is
  the value \<open>ShapeError\<close>; the other errors carry their Python names.
\<close>

datatype error =
    IndexError
  | ShapeError
  | UnboundLocalError
  | AttributeError
  | KeyError
  | ValueError
  | TypeError
  | DGLError

record tensor =
  shape :: "nat list"
  elem :: "nat list \<Rightarrow> real"

definition bnd :: "error + 'a \<Rightarrow> ('a \<Rightarrow> error + 'b) \<Rightarrow> error + 'b" where
  "bnd r f = (case r of Inl e \<Rightarrow> Inl e | Inr v \<Rightarrow> f v)"

text \<open>Python's \<^verbatim>\<open>xs[i]\<close> for an index that is not negative.\<close>

definition getitem :: "'a list \<Rightarrow> nat \<Rightarrow> error + 'a" where
  "getitem xs i = (if i < length xs then Inr (xs ! i) else Inl IndexError)"

text \<open>Python's \<^verbatim>\<open>range(n)\<close>: empty when \<open>n\<close> is not positive.\<close>

definition py_range :: "int \<Rightarrow> nat list" where
  "py_range n = [0..<nat n]"

text \<open>An elementwise function, as \<^verbatim>\<open>F.relu\<close> or \<^verbatim>\<open>nn.Sigmoid\<close> apply one.\<close>

definition pointwise :: "(real \<Rightarrow> real) \<Rightarrow> tensor \<Rightarrow> tensor" where
  "pointwise f t = \<lparr>shape = shape t, elem = (\<lambda>idx. f (elem t idx))\<rparr>"

definition relu :: "real \<Rightarrow> real" where
  "relu x = max 0 x"

definition sigmoid :: "real \<Rightarrow> real" where
  "sigmoid x = 1 / (1 + exp (- x))"

text \<open>
  A dimension argument may be negative, counting from the end; \<open>norm_dim r d\<close> is the
  position it names among \<open>r\<close> dimensions, or nothing when it is out of range.
\<close>

definition norm_dim :: "nat \<Rightarrow> int \<Rightarrow> nat option" where
  "norm_dim r d =
     (let d' = (if d < 0 then d + int r else d)
      in if 0 \<le> d' \<and> d' < int r then Some (nat d') else None)"

text \<open>\<^verbatim>\<open>torch.unsqueeze(t, dim)\<close>: a new dimension of size 1 at \<open>dim\<close>.\<close>

definition unsqueeze :: "tensor \<Rightarrow> int \<Rightarrow> error + tensor" where
  "unsqueeze t d =
     (case norm_dim (Suc (length (shape t))) d of
        None \<Rightarrow> Inl IndexError
      | Some k \<Rightarrow>
          Inr \<lparr>shape = take k (shape t) @ [1] @ drop k (shape t),
               elem = (\<lambda>idx. elem t (take k idx @ drop (Suc k) idx))\<rparr>)"

text \<open>
  \<^verbatim>\<open>torch.cat((a, b), dim)\<close>: the two tensors agree in every dimension but \<open>dim\<close>,
  where their sizes add up.
\<close>

definition cat :: "tensor \<Rightarrow> tensor \<Rightarrow> int \<Rightarrow> error + tensor" where
  "cat a b d =
     (case norm_dim (length (shape a)) d of
        None \<Rightarrow> Inl IndexError
      | Some k \<Rightarrow>
          if length (shape b) = length (shape a) \<and> (shape a)[k := 0] = (shape b)[k := 0]
          then Inr \<lparr>shape = (shape a)[k := shape a ! k + shape b ! k],
                    elem = (\<lambda>idx. if idx ! k < shape a ! k then elem a idx
                                   else elem b (idx[k := idx ! k - shape a ! k]))\<rparr>
          else Inl ShapeError)"

text \<open>
  Broadcasting of two shapes, aligned at their last dimension: two sizes are
  compatible when they are equal or one of them is 1. \<open>bc_dims\<close> works on the
  reversed shapes.
\<close>

fun bc_dims :: "nat list \<Rightarrow> nat list \<Rightarrow> nat list option" where
  "bc_dims [] ys = Some ys"
| "bc_dims (x # xs) [] = Some (x # xs)"
| "bc_dims (x # xs) (y # ys) =
     (if x = y \<or> x = 1 \<or> y = 1
      then map_option (Cons (if x = 1 then y else x)) (bc_dims xs ys)
      else None)"

definition broadcast_shape :: "nat list \<Rightarrow> nat list \<Rightarrow> nat list option" where
  "broadcast_shape s t = map_option rev (bc_dims (rev s) (rev t))"

definition bc_index :: "nat list \<Rightarrow> nat list \<Rightarrow> nat list" where
  "bc_index s idx =
     map (\<lambda>(d, i). if d = 1 then 0 else i) (zip s (drop (length idx - length s) idx))"

definition broadcast2 :: "(real \<Rightarrow> real \<Rightarrow> real) \<Rightarrow> tensor \<Rightarrow> tensor \<Rightarrow> error + tensor" where
  "broadcast2 f a b =
     (case broadcast_shape (shape a) (shape b) of
        None \<Rightarrow> Inl ShapeError
      | Some s \<Rightarrow>
          Inr \<lparr>shape = s,
               elem = (\<lambda>idx. f (elem a (bc_index (shape a) idx)) (elem b (bc_index (shape b) idx)))\<rparr>)"

definition tmul :: "tensor \<Rightarrow> tensor \<Rightarrow> error + tensor" where
  "tmul a b = broadcast2 (\<lambda>x y. x * y) a b"

definition tadd :: "tensor \<Rightarrow> tensor \<Rightarrow> error + tensor" where
  "tadd a b = broadcast2 (\<lambda>x y. x + y) a b"

text \<open>\<^verbatim>\<open>torch.sum(t, dim)\<close>: the dimension \<open>dim\<close> is summed away.\<close>

definition sum_dim :: "tensor \<Rightarrow> int \<Rightarrow> error + tensor" where
  "sum_dim t d =
     (case norm_dim (length (shape t)) d of
        None \<Rightarrow> Inl IndexError
      | Some k \<Rightarrow>
          Inr \<lparr>shape = take k (shape t) @ drop (Suc k) (shape t),
               elem = (\<lambda>idx. \<Sum>j<shape t ! k. elem t (take k idx @ [j] @ drop k idx))\<rparr>)"

text \<open>
  \<^verbatim>\<open>F.softmax(t, dim=-1)\<close>: along the last dimension every entry is its exponential
  over the sum of the exponentials of its row.
\<close>

definition softmax :: "tensor \<Rightarrow> tensor" where
  "softmax t =
     (if shape t = [] then \<lparr>shape = [], elem = (\<lambda>idx. 1)\<rparr>
      else \<lparr>shape = shape t,
            elem = (\<lambda>idx. exp (elem t idx) /
                     (\<Sum>j<last (shape t). exp (elem t (butlast idx @ [j]))))\<rparr>)"

section \<open>Batched graphs\<close>

text \<open>
  A batched graph holds the graphs of a batch side by side: \<open>batch_num_nodes\<close> gives
  the number of nodes of each graph, the nodes of the batch are numbered through, an
  edge is a pair (source, destination) of node numbers, and \<open>ndata\<close> is the
  dictionary of node features, \<^verbatim>\<open>bg.ndata\<close>.
\<close>

record graph =
  batch_num_nodes :: "nat list"
  edges :: "(nat \<times> nat) list"
  ndata :: "string \<rightharpoonup> tensor"

definition num_nodes :: "graph \<Rightarrow> nat" where
  "num_nodes g = sum_list (batch_num_nodes g)"

definition batch_size :: "graph \<Rightarrow> nat" where
  "batch_size g = length (batch_num_nodes g)"

definition in_degree :: "graph \<Rightarrow> nat \<Rightarrow> nat" where
  "in_degree g v = length (filter (\<lambda>e. snd e = v) (edges g))"

definition out_degree :: "graph \<Rightarrow> nat \<Rightarrow> nat" where
  "out_degree g v = length (filter (\<lambda>e. fst e = v) (edges g))"

text \<open>The first node of graph \<open>b\<close> of the batch.\<close>

definition node_offset :: "graph \<Rightarrow> nat \<Rightarrow> nat" where
  "node_offset g b = sum_list (take b (batch_num_nodes g))"

text \<open>
  Code that reads or writes the graph is a function from the graph to a result and the
  graph it leaves behind. A fault leaves the graph as it was when the fault happened.
\<close>

type_synonym 'a gstate = "graph \<Rightarrow> (error + 'a) \<times> graph"

definition returnS :: "'a \<Rightarrow> 'a gstate" where
  "returnS v g = (Inr v, g)"

definition liftS :: "error + 'a \<Rightarrow> 'a gstate" where
  "liftS r g = (r, g)"

definition bindS :: "'a gstate \<Rightarrow> ('a \<Rightarrow> 'b gstate) \<Rightarrow> 'b gstate" where
  "bindS m f g = (case m g of (Inl e, g') \<Rightarrow> (Inl e, g') | (Inr v, g') \<Rightarrow> f v g')"

text \<open>
  \<^verbatim>\<open>bg.ndata[k] = t\<close>: the graph library takes a feature only when it has one row per
  node.
\<close>

definition set_ndata :: "string \<Rightarrow> tensor \<Rightarrow> unit gstate" where
  "set_ndata k t g =
     (if shape t \<noteq> [] \<and> hd (shape t) = num_nodes g
      then (Inr (), g\<lparr>ndata := (ndata g)(k \<mapsto> t)\<rparr>)
      else (Inl DGLError, g))"

definition get_ndata :: "string \<Rightarrow> tensor gstate" where
  "get_ndata k g = (case ndata g k of None \<Rightarrow> (Inl KeyError, g) | Some t \<Rightarrow> (Inr t, g))"

text \<open>
  \<^verbatim>\<open>with bg.local_scope():\<close> runs its body on a copy of the node data and puts the
  old node data back when the body has finished. The library's context manager does so
  after its \<^verbatim>\<open>yield\<close>, outside any \<^verbatim>\<open>finally\<close>: a fault inside the body
  propagates with the body's node data still in place.
\<close>

definition local_scope :: "'a gstate \<Rightarrow> 'a gstate" where
  "local_scope body g =
     (case body g of
        (Inl e, g') \<Rightarrow> (Inl e, g')
      | (Inr v, g') \<Rightarrow> (Inr v, g'\<lparr>ndata := ndata g\<rparr>))"

text \<open>
  The readouts. \<open>segment_sum g t\<close> adds up, for each graph of the batch, the rows of
  \<open>t\<close> that belong to its nodes; the library's segment reduction does so after it has
  refused a feature that has no entries per node (a width of 0). \<^verbatim>\<open>sum_nodes(bg, 'h',
  'w')\<close> multiplies the feature by the weight first (broadcasting) and reduces the
  product; \<^verbatim>\<open>dgl.mean_nodes(bg, 'h')\<close> reduces the feature and divides each sum by the
  number of nodes of its graph, counted as 1 for a graph without nodes.
\<close>

definition segment_sum :: "graph \<Rightarrow> tensor \<Rightarrow> tensor" where
  "segment_sum g t =
     \<lparr>shape = batch_size g # tl (shape t),
      elem = (\<lambda>idx. \<Sum>n<batch_num_nodes g ! hd idx. elem t ((node_offset g (hd idx) + n) # tl idx))\<rparr>"

definition segment_reduce :: "graph \<Rightarrow> tensor \<Rightarrow> error + tensor" where
  "segment_reduce g t = (if 0 \<in> set (tl (shape t)) then Inl DGLError else Inr (segment_sum g t))"

definition sum_nodes :: "string \<Rightarrow> string \<Rightarrow> tensor gstate" where
  "sum_nodes feat weight =
     bindS (get_ndata feat) (\<lambda>x.
     bindS (get_ndata weight) (\<lambda>w.
     bindS (liftS (tmul x w)) (\<lambda>xw g.
     (segment_reduce g xw, g))))"

definition mean_nodes :: "string \<Rightarrow> tensor gstate" where
  "mean_nodes feat =
     bindS (get_ndata feat) (\<lambda>x g.
     (bnd (segment_reduce g x) (\<lambda>s.
        Inr \<lparr>shape = shape s,
             elem = (\<lambda>idx. elem s idx / real (max 1 (batch_num_nodes g ! hd idx)))\<rparr>), g))"

section \<open>Layers of the neural-network library\<close>

text \<open>
  \<^verbatim>\<open>nn.Linear(in_features, out_features)\<close> owns a weight of shape
  (out_features, in_features) and a bias of shape (out_features). Applied to a tensor
  whose last dimension is \<open>in_features\<close> it replaces that dimension by
  \<open>out_features\<close>; any other width is a dimension fault.
\<close>

record Linear =
  in_features :: nat
  out_features :: nat
  weight :: tensor
  bias :: tensor

definition Linear_forward :: "Linear \<Rightarrow> tensor \<Rightarrow> error + tensor" where
  "Linear_forward l x =
     (if shape x \<noteq> [] \<and> last (shape x) = in_features l
      then Inr \<lparr>shape = butlast (shape x) @ [out_features l],
                elem = (\<lambda>idx. (\<Sum>k<in_features l.
                           elem x (butlast idx @ [k]) * elem (weight l) [last idx, k])
                         + elem (bias l) [last idx])\<rparr>
      else Inl ShapeError)"

text \<open>
  The values of the parameters (random at construction, or loaded) are an argument of
  every constructor below: \<open>\<theta> name i\<close> gives the entries of the parameter
  \<open>name\<close> of the \<open>i\<close>-th module of a module list.
\<close>

type_synonym params = "string \<Rightarrow> nat \<Rightarrow> nat list \<Rightarrow> real"

definition nn_Linear :: "nat \<Rightarrow> nat \<Rightarrow> (nat list \<Rightarrow> real) \<Rightarrow> (nat list \<Rightarrow> real) \<Rightarrow> Linear" where
  "nn_Linear i o' w b =
     \<lparr>in_features = i, out_features = o',
      weight = \<lparr>shape = [o', i], elem = w\<rparr>,
      bias = \<lparr>shape = [o'], elem = b\<rparr>\<rparr>"

text \<open>
  \<^verbatim>\<open>nn.BatchNorm1d(num_features)\<close> on a tensor of shape (rows, num_features). The
  layer first checks the number of dimensions (a \<^verbatim>\<open>ValueError\<close> otherwise), in
  training mode then refuses a batch of one row (a \<^verbatim>\<open>ValueError\<close> as well), and
  faults on a width other than \<open>num_features\<close>. In training mode it normalises every
  column by the mean and the (biased) variance of the batch, in evaluation mode by its
  running statistics. The update of the running statistics that training mode performs
  as well changes no value a forward pass returns and is not tracked; the
  three-dimensional input the library also takes is produced by no call of this module
  and is not modelled.
\<close>

record BatchNorm1d =
  num_features :: nat
  training :: bool
  eps :: real
  gamma :: "nat \<Rightarrow> real"
  beta :: "nat \<Rightarrow> real"
  running_mean :: "nat \<Rightarrow> real"
  running_var :: "nat \<Rightarrow> real"

definition batch_mean :: "tensor \<Rightarrow> nat \<Rightarrow> real" where
  "batch_mean x j = (\<Sum>i<hd (shape x). elem x [i, j]) / real (hd (shape x))"

definition batch_var :: "tensor \<Rightarrow> nat \<Rightarrow> real" where
  "batch_var x j =
     (\<Sum>i<hd (shape x). (elem x [i, j] - batch_mean x j)\<^sup>2) / real (hd (shape x))"

definition BatchNorm1d_forward :: "BatchNorm1d \<Rightarrow> tensor \<Rightarrow> error + tensor" where
  "BatchNorm1d_forward l x =
     (if length (shape x) \<noteq> 2 then Inl ValueError
      else if training l \<and> hd (shape x) = 1 then Inl ValueError
      else if shape x ! 1 \<noteq> num_features l then Inl ShapeError
      else Inr \<lparr>shape = shape x,
                elem = (\<lambda>idx.
                  (let j = idx ! 1;
                       m = (if training l then batch_mean x j else running_mean l j);
                       v = (if training l then batch_var x j else running_var l j)
                   in (elem x idx - m) / sqrt (v + eps l) * gamma l j + beta l j))\<rparr>)"

definition nn_BatchNorm1d :: "nat \<Rightarrow> bool \<Rightarrow> params \<Rightarrow> string \<Rightarrow> nat \<Rightarrow> BatchNorm1d" where
  "nn_BatchNorm1d n tr \<theta> name i =
     \<lparr>num_features = n, training = tr, eps = 1 / 100000,
      gamma = (\<lambda>j. \<theta> (name @ ''.weight'') i [j]),
      beta = (\<lambda>j. \<theta> (name @ ''.bias'') i [j]),
      running_mean = (\<lambda>j. \<theta> (name @ ''.running_mean'') i [j]),
      running_var = (\<lambda>j. \<theta> (name @ ''.running_var'') i [j])\<rparr>"

text \<open>
  \<^verbatim>\<open>GraphConv(in_feats, out_feats, bias=True, activation=activation)\<close> with the
  library's defaults (symmetric normalisation, \<^verbatim>\<open>allow_zero_in_degree=False\<close>), on
  node features with two dimensions (rows, width), as the docstring of
  \<^verbatim>\<open>ResGCNLayer.forward\<close> has them. In the order of the library's code, the layer
  \<^item> refuses a graph in which some node has no incoming edge (\<^verbatim>\<open>DGLError\<close>);
  \<^item> multiplies the features by the column of the inverse square roots of the
    out-degrees (degrees below 1 count as 1); the product broadcasts, so a feature
    tensor of one row is spread over all the nodes;
  \<^item> when \<open>in_feats\<close> is greater than \<open>out_feats\<close>, multiplies by the weight and then
    sums over the incoming edges of every node, and otherwise sums first and multiplies
    by the weight after; the summation stores the features on the nodes, which takes
    one row per node (\<^verbatim>\<open>DGLError\<close> otherwise), and its kernel refuses features of
    width 0 (\<^verbatim>\<open>DGLError\<close>);
  \<^item> multiplies by the column of the inverse square roots of the in-degrees, adds the
    bias and applies the activation.
  The layer works in a scope of its own and leaves the graph as it was. Feature tensors
  with another number of dimensions are outside this model and count as a dimension
  fault.
\<close>

record GraphConv =
  gc_in_feats :: nat
  gc_out_feats :: nat
  gc_weight :: tensor
  gc_bias :: tensor
  gc_activation :: "real \<Rightarrow> real"

definition zero_in_degree :: "graph \<Rightarrow> bool" where
  "zero_in_degree g = list_ex (\<lambda>v. in_degree g v = 0) [0..<num_nodes g]"

definition deg_norm :: "nat \<Rightarrow> real" where
  "deg_norm d = 1 / sqrt (real (max d 1))"

definition degree_column :: "graph \<Rightarrow> (graph \<Rightarrow> nat \<Rightarrow> nat) \<Rightarrow> tensor" where
  "degree_column g deg = \<lparr>shape = [num_nodes g, 1], elem = (\<lambda>idx. deg_norm (deg g (hd idx)))\<rparr>"

definition matmul :: "tensor \<Rightarrow> tensor \<Rightarrow> error + tensor" where
  "matmul a w =
     (if length (shape a) = 2 \<and> length (shape w) = 2 \<and> shape a ! 1 = shape w ! 0
      then Inr \<lparr>shape = [shape a ! 0, shape w ! 1],
                elem = (\<lambda>idx. \<Sum>k<shape w ! 0. elem a [idx ! 0, k] * elem w [k, idx ! 1])\<rparr>
      else Inl ShapeError)"

definition aggregate :: "graph \<Rightarrow> tensor \<Rightarrow> error + tensor" where
  "aggregate g t =
     (if shape t = [] \<or> hd (shape t) \<noteq> num_nodes g then Inl DGLError
      else if 0 \<in> set (tl (shape t)) then Inl DGLError
      else Inr \<lparr>shape = shape t,
                elem = (\<lambda>idx. \<Sum>e\<leftarrow>edges g.
                          if snd e = hd idx then elem t (fst e # tl idx) else 0)\<rparr>)"

definition GraphConv_forward :: "GraphConv \<Rightarrow> graph \<Rightarrow> tensor \<Rightarrow> error + tensor" where
  "GraphConv_forward l g feat =
     (if zero_in_degree g then Inl DGLError
      else if length (shape feat) \<noteq> 2 then Inl ShapeError
      else
        bnd (tmul feat (degree_column g out_degree)) (\<lambda>feat_src.
        bnd (if gc_out_feats l < gc_in_feats l
             then bnd (matmul feat_src (gc_weight l)) (\<lambda>feat_src. aggregate g feat_src)
             else bnd (aggregate g feat_src) (\<lambda>rst. matmul rst (gc_weight l))) (\<lambda>rst.
        bnd (tmul rst (degree_column g in_degree)) (\<lambda>rst.
        bnd (tadd rst (gc_bias l)) (\<lambda>rst.
        Inr (pointwise (gc_activation l) rst))))))"

definition dgl_GraphConv :: "nat \<Rightarrow> nat \<Rightarrow> (real \<Rightarrow> real) \<Rightarrow> params \<Rightarrow> string \<Rightarrow> GraphConv" where
  "dgl_GraphConv i o' act \<theta> name =
     \<lparr>gc_in_feats = i, gc_out_feats = o',
      gc_weight = \<lparr>shape = [i, o'], elem = \<theta> (name @ ''.weight'') 0\<rparr>,
      gc_bias = \<lparr>shape = [o'], elem = \<theta> (name @ ''.bias'') 0\<rparr>,
      gc_activation = act\<rparr>"


section \<open>ResGCNLayer\<close>

text \<open>
  The constructor keeps the activation, builds the graph convolution, and builds the
  residual projection and the batch normalisation only when their flags are set: the
  attributes \<^verbatim>\<open>res_connection\<close> and \<^verbatim>\<open>bn_layer\<close> do not exist otherwise. The
  parameters \<^verbatim>\<open>num_rels\<close> and \<^verbatim>\<open>loop\<close> are not used by the constructor and are left
  out; \<open>tr\<close> is the mode (training or evaluation) the module is in.
\<close>

record ResGCNLayer =
  activation :: "real \<Rightarrow> real"
  graph_conv_layer :: GraphConv
  residual :: bool
  res_connection :: "Linear option"
  bn :: bool
  bn_layer :: "BatchNorm1d option"

definition ResGCNLayer_init ::
  "nat \<Rightarrow> nat \<Rightarrow> (real \<Rightarrow> real) \<Rightarrow> bool \<Rightarrow> bool \<Rightarrow> bool \<Rightarrow> params \<Rightarrow> string \<Rightarrow> ResGCNLayer" where
  "ResGCNLayer_init in_feats out_feats act res batchnorm tr \<theta> name =
     \<lparr>activation = act,
      graph_conv_layer = dgl_GraphConv in_feats out_feats act \<theta> (name @ ''.graph_conv_layer''),
      residual = res,
      res_connection =
        (if res then Some (nn_Linear in_feats out_feats
                             (\<theta> (name @ ''.res_connection.weight'') 0)
                             (\<theta> (name @ ''.res_connection.bias'') 0))
         else None),
      bn = batchnorm,
      bn_layer =
        (if batchnorm then Some (nn_BatchNorm1d out_feats tr \<theta> (name @ ''.bn_layer'') 0)
         else None)\<rparr>"

text \<open>
  \<^verbatim>\<open>forward\<close>, statement by statement. The local variable \<^verbatim>\<open>res_feats\<close> is bound
  only inside the branch of \<^verbatim>\<open>if self.residual\<close>; \<^verbatim>\<open>del res_feats\<close> on an unbound
  local raises \<^verbatim>\<open>UnboundLocalError\<close>. \<^verbatim>\<open>torch.cuda.empty_cache()\<close> returns nothing
  and changes no tensor. The graph is only read.
\<close>

definition del_local :: "'a option \<Rightarrow> error + unit" where
  "del_local v = (case v of None \<Rightarrow> Inl UnboundLocalError | Some x \<Rightarrow> Inr ())"

definition ResGCNLayer_forward :: "ResGCNLayer \<Rightarrow> graph \<Rightarrow> tensor \<Rightarrow> error + tensor" where
  "ResGCNLayer_forward l bg node_feats =
     bnd (GraphConv_forward (graph_conv_layer l) bg node_feats) (\<lambda>new_feats.
     bnd (if residual l
          then bnd (case res_connection l of None \<Rightarrow> Inl AttributeError
                    | Some rc \<Rightarrow> Linear_forward rc node_feats) (\<lambda>r.
               let res_feats = pointwise (activation l) r in
               bnd (tadd new_feats res_feats) (\<lambda>new_feats'.
               Inr (new_feats', Some res_feats)))
          else Inr (new_feats, None)) (\<lambda>(new_feats, res_feats).
     bnd (if bn l
          then (case bn_layer l of None \<Rightarrow> Inl AttributeError
                | Some b \<Rightarrow> BatchNorm1d_forward b new_feats)
          else Inr new_feats) (\<lambda>new_feats.
     bnd (del_local res_feats) (\<lambda>u.
     Inr new_feats))))"

section \<open>WeightAndSum\<close>

text \<open>
  \<^verbatim>\<open>atom_weight(in_feats)\<close> is a linear layer to one output followed by a sigmoid.
  The constructor builds one of them per task (\<^verbatim>\<open>range(self.task_num)\<close>) and one
  shared one.
\<close>

definition atom_weight :: "nat \<Rightarrow> params \<Rightarrow> string \<Rightarrow> nat \<Rightarrow> Linear" where
  "atom_weight in_feats' \<theta> name i =
     nn_Linear in_feats' 1 (\<theta> (name @ ''.0.weight'') i) (\<theta> (name @ ''.0.bias'') i)"

definition atom_weight_forward :: "Linear \<Rightarrow> tensor \<Rightarrow> error + tensor" where
  "atom_weight_forward l x = bnd (Linear_forward l x) (\<lambda>y. Inr (pointwise sigmoid y))"

record WeightAndSum =
  attention :: bool
  in_feats :: nat
  task_num :: int
  return_weight :: bool
  atom_weighting_specific :: "Linear list"
  shared_weighting :: Linear

definition WeightAndSum_init :: "nat \<Rightarrow> int \<Rightarrow> bool \<Rightarrow> bool \<Rightarrow> params \<Rightarrow> string \<Rightarrow> WeightAndSum" where
  "WeightAndSum_init in_feats' task_num' attention' return_weight' \<theta> name =
     \<lparr>attention = attention', in_feats = in_feats', task_num = task_num',
      return_weight = return_weight',
      atom_weighting_specific =
        map (\<lambda>i. atom_weight in_feats' \<theta> (name @ ''.atom_weighting_specific'') i)
          (py_range task_num'),
      shared_weighting = atom_weight in_feats' \<theta> (name @ ''.shared_weighting'') 0\<rparr>"

text \<open>
  What \<^verbatim>\<open>forward\<close> returns: the list of the per-task embeddings, that list together
  with the list of the node weights, or the single shared embedding.
\<close>

datatype readout =
    Feats "tensor list"
  | FeatsAndWeights "tensor list" "tensor list"
  | SharedFeats tensor

text \<open>The body of the loop over the tasks, inside its \<^verbatim>\<open>with bg.local_scope()\<close>.\<close>

definition specific_scope :: "WeightAndSum \<Rightarrow> tensor \<Rightarrow> nat \<Rightarrow> (tensor \<times> tensor) gstate" where
  "specific_scope ws feats i =
     local_scope
       (bindS (set_ndata ''h'' feats) (\<lambda>u.
        bindS (liftS (bnd (getitem (atom_weighting_specific ws) i)
                          (\<lambda>l. atom_weight_forward l feats))) (\<lambda>weight.
        bindS (set_ndata ''w'' weight) (\<lambda>u.
        bindS (sum_nodes ''h'' ''w'') (\<lambda>specific_feats_sum.
        bindS (get_ndata ''w'') (\<lambda>w.
        returnS (specific_feats_sum, w)))))))"

fun specific_loop ::
  "WeightAndSum \<Rightarrow> tensor \<Rightarrow> nat list \<Rightarrow> tensor list \<times> tensor list \<Rightarrow> (tensor list \<times> tensor list) gstate" where
  "specific_loop ws feats [] acc = returnS acc"
| "specific_loop ws feats (i # rest) acc =
     bindS (specific_scope ws feats i) (\<lambda>(specific_feats_sum, w).
     specific_loop ws feats rest (fst acc @ [specific_feats_sum], snd acc @ [w]))"

text \<open>The shared embedding, in a scope of its own.\<close>

definition shared_scope :: "WeightAndSum \<Rightarrow> tensor \<Rightarrow> tensor gstate" where
  "shared_scope ws feats =
     local_scope
       (bindS (set_ndata ''h'' feats) (\<lambda>u.
        bindS (liftS (atom_weight_forward (shared_weighting ws) feats)) (\<lambda>w.
        bindS (set_ndata ''w'' w) (\<lambda>u.
        sum_nodes ''h'' ''w''))))"

text \<open>
  \<^verbatim>\<open>forward\<close>: the loop fills \<^verbatim>\<open>feat_list\<close> and \<^verbatim>\<open>atom_list\<close>, the shared
  embedding is computed, and the flags choose what is returned. The statement that
  would append the shared embedding to \<^verbatim>\<open>feat_list\<close> is commented out in the source,
  so the list that is returned holds the per-task embeddings only.
\<close>

definition WeightAndSum_forward :: "WeightAndSum \<Rightarrow> tensor \<Rightarrow> readout gstate" where
  "WeightAndSum_forward ws feats =
     bindS (specific_loop ws feats (py_range (task_num ws)) ([], [])) (\<lambda>(feat_list, atom_list).
     bindS (shared_scope ws feats) (\<lambda>shared_feats_sum.
     returnS (if attention ws
              then (if return_weight ws then FeatsAndWeights feat_list atom_list
                    else Feats feat_list)
              else SharedFeats shared_feats_sum)))"


section \<open>The class MTGL-ADMET\<close>

text \<open>
  \<^verbatim>\<open>fc_layer(dropout, in_feats, hidden_feats)\<close> is dropout, a linear layer, a ReLU and
  a batch normalisation in sequence; \<^verbatim>\<open>output_layer(hidden_feats, out_feats)\<close> is a
  single linear layer. Dropout multiplies every entry by a factor: 1 when the rate is
  0 or the module is in evaluation mode, and otherwise whatever the random draw gave,
  which is taken from the parameters.
\<close>

record fc_layer =
  fc_dropout :: "nat list \<Rightarrow> real"
  fc_linear :: Linear
  fc_bn :: BatchNorm1d

definition fc_layer_init :: "real \<Rightarrow> nat \<Rightarrow> nat \<Rightarrow> bool \<Rightarrow> params \<Rightarrow> string \<Rightarrow> nat \<Rightarrow> fc_layer" where
  "fc_layer_init dropout in_feats' hidden_feats tr \<theta> name i =
     \<lparr>fc_dropout = (\<lambda>idx. if dropout = 0 \<or> \<not> tr then 1 else \<theta> (name @ ''.0.mask'') i idx),
      fc_linear = nn_Linear in_feats' hidden_feats
                    (\<theta> (name @ ''.1.weight'') i) (\<theta> (name @ ''.1.bias'') i),
      fc_bn = nn_BatchNorm1d hidden_feats tr \<theta> (name @ ''.3'') i\<rparr>"

definition fc_layer_forward :: "fc_layer \<Rightarrow> tensor \<Rightarrow> error + tensor" where
  "fc_layer_forward l x =
     bnd (Linear_forward (fc_linear l)
            \<lparr>shape = shape x, elem = (\<lambda>idx. elem x idx * fc_dropout l idx)\<rparr>) (\<lambda>y.
     BatchNorm1d_forward (fc_bn l) (pointwise relu y))"

definition output_layer :: "nat \<Rightarrow> nat \<Rightarrow> params \<Rightarrow> string \<Rightarrow> nat \<Rightarrow> Linear" where
  "output_layer hidden_feats out_feats \<theta> name i =
     nn_Linear hidden_feats out_feats (\<theta> (name @ ''.0.weight'') i) (\<theta> (name @ ''.0.bias'') i)"

text \<open>
  The constructor. \<^verbatim>\<open>num_experts\<close> and \<^verbatim>\<open>num_gates\<close> are the constants 5 and 4
  whatever is passed; every gate is \<^verbatim>\<open>nn.Linear(64, 2)\<close>, with the literal 64; the
  two convolution blocks use the defaults of \<^verbatim>\<open>ResGCNLayer\<close> (ReLU, residual, batch
  normalisation); the readout gets \<^verbatim>\<open>gnn_out_feats\<close>, the number of tasks and the
  flag \<^verbatim>\<open>return_weight\<close>, and keeps its default \<^verbatim>\<open>attention=True\<close>. The attribute
  \<^verbatim>\<open>fine_f\<close> is assigned inside a loop over the tasks and so exists only when there
  is a task. The number of tasks is a Python integer; the default \<^verbatim>\<open>None\<close> makes the
  constructor itself fail and is no construction.
\<close>

record MTGL_ADMET =
  task_num :: int
  return_weight :: bool
  weighted_sum_readout :: WeightAndSum
  num_experts :: nat
  num_gates :: nat
  conv1 :: ResGCNLayer
  conv2 :: ResGCNLayer
  gates :: "Linear list"
  fc_in_feats :: nat
  fine_f :: "fc_layer list option"
  fc_layers1 :: "fc_layer list"
  fc_layers2 :: "fc_layer list"
  output_layer1 :: "Linear list"

definition MTGL_ADMET_init ::
  "nat \<Rightarrow> nat \<Rightarrow> nat \<Rightarrow> int \<Rightarrow> bool \<Rightarrow> nat \<Rightarrow> real \<Rightarrow> bool \<Rightarrow> params \<Rightarrow> MTGL_ADMET" where
  "MTGL_ADMET_init in_feats' hidden_feats gnn_out_feats n_tasks return_weight'
       classifier_hidden_feats dropout tr \<theta> =
     \<lparr>task_num = n_tasks,
      return_weight = return_weight',
      weighted_sum_readout =
        WeightAndSum_init gnn_out_feats n_tasks True return_weight' \<theta> ''weighted_sum_readout'',
      num_experts = 5,
      num_gates = 4,
      conv1 = ResGCNLayer_init in_feats' hidden_feats relu True True tr \<theta> ''conv1'',
      conv2 = ResGCNLayer_init hidden_feats gnn_out_feats relu True True tr \<theta> ''conv2'',
      gates = map (\<lambda>i. nn_Linear 64 2 (\<theta> ''gates.weight'' i) (\<theta> ''gates.bias'' i))
                (py_range n_tasks),
      fc_in_feats = gnn_out_feats,
      fine_f =
        (if py_range n_tasks = [] then None
         else Some (map (fc_layer_init dropout gnn_out_feats gnn_out_feats tr \<theta> ''fine_f'')
                      (py_range n_tasks))),
      fc_layers1 = map (fc_layer_init dropout gnn_out_feats classifier_hidden_feats tr \<theta> ''fc_layers1'')
                     (py_range n_tasks),
      fc_layers2 = map (fc_layer_init dropout classifier_hidden_feats classifier_hidden_feats tr \<theta>
                          ''fc_layers2'')
                     (py_range n_tasks),
      output_layer1 = map (output_layer classifier_hidden_feats 1 \<theta> ''output_layer1'')
                        (py_range n_tasks)\<rparr>"

text \<open>
  One round of the loop over the gates (lines 148 to 156 of the source): the two
  embeddings picked from \<^verbatim>\<open>feats_list\<close> are stacked along a new dimension 1, the
  gate is the softmax of a linear layer applied to \<^verbatim>\<open>hg\<close>, and the stack is weighted
  by the gate and summed along dimension 1.
\<close>

definition gate_step :: "MTGL_ADMET \<Rightarrow> tensor list \<Rightarrow> tensor \<Rightarrow> nat \<Rightarrow> error + tensor" where
  "gate_step m feats_list hg i =
     bnd (getitem feats_list i) (\<lambda>x.
     bnd (unsqueeze x 1) (\<lambda>x_1.
     bnd (getitem feats_list (num_gates m)) (\<lambda>y.
     bnd (unsqueeze y 1) (\<lambda>y_1.
     bnd (cat x_1 y_1 1) (\<lambda>w.
     bnd (getitem (gates m) i) (\<lambda>g.
     bnd (Linear_forward g hg) (\<lambda>gate.
     bnd (unsqueeze (softmax gate) (- 1)) (\<lambda>gate.
     bnd (tmul w gate) (\<lambda>wg.
     sum_dim wg 1)))))))))"

fun gate_loop :: "MTGL_ADMET \<Rightarrow> tensor list \<Rightarrow> tensor \<Rightarrow> nat list \<Rightarrow> tensor list \<Rightarrow> error + tensor list" where
  "gate_loop m feats_list hg [] combine = Inr combine"
| "gate_loop m feats_list hg (i # rest) combine =
     bnd (gate_step m feats_list hg i) (\<lambda>c.
     gate_loop m feats_list hg rest (combine @ [c]))"

text \<open>Lines 158 to 165: the sum of the four gated vectors and the list of five slots.\<close>

definition combine_slots :: "tensor list \<Rightarrow> tensor list \<Rightarrow> error + tensor list" where
  "combine_slots feats_list combine =
     bnd (getitem combine 0) (\<lambda>c0.
     bnd (getitem combine 1) (\<lambda>c1.
     bnd (tadd c0 c1) (\<lambda>s1.
     bnd (getitem combine 2) (\<lambda>c2.
     bnd (tadd s1 c2) (\<lambda>s2.
     bnd (getitem combine 3) (\<lambda>c3.
     bnd (tadd s2 c3) (\<lambda>combine_1.
     bnd (getitem feats_list 0) (\<lambda>f0.
     bnd (getitem feats_list 1) (\<lambda>f1.
     bnd (getitem feats_list 2) (\<lambda>f2.
     bnd (getitem feats_list 3) (\<lambda>f3.
     Inr [f0, combine_1, f1, f2, f3])))))))))))"

text \<open>
  Lines 168 to 176: the loop over the tasks. \<^verbatim>\<open>prediction_all\<close> is unbound before
  the first round.
\<close>

fun fc_loop :: "MTGL_ADMET \<Rightarrow> tensor list \<Rightarrow> nat list \<Rightarrow> tensor option \<Rightarrow> error + tensor option" where
  "fc_loop m combine_2 [] prediction_all = Inr prediction_all"
| "fc_loop m combine_2 (i # rest) prediction_all =
     bnd (getitem combine_2 i) (\<lambda>mol_feats.
     bnd (getitem (fc_layers1 m) i) (\<lambda>l1.
     bnd (fc_layer_forward l1 mol_feats) (\<lambda>h1.
     bnd (getitem (fc_layers2 m) i) (\<lambda>l2.
     bnd (fc_layer_forward l2 h1) (\<lambda>h2.
     bnd (getitem (output_layer1 m) i) (\<lambda>l3.
     bnd (Linear_forward l3 h2) (\<lambda>predict.
     bnd (if i = 0 then Inr predict
          else (case prediction_all of None \<Rightarrow> Inl UnboundLocalError
                | Some p \<Rightarrow> cat p predict 1)) (\<lambda>p.
     fc_loop m combine_2 rest (Some p)))))))))"

text \<open>Everything after \<^verbatim>\<open>hg\<close> has been computed (lines 145 to 178); the graph is not used.\<close>

definition predict_from :: "MTGL_ADMET \<Rightarrow> tensor list \<Rightarrow> tensor \<Rightarrow> error + tensor" where
  "predict_from m feats_list hg =
     bnd (gate_loop m feats_list hg [0..<num_gates m] []) (\<lambda>combine.
     bnd (combine_slots feats_list combine) (\<lambda>combine_2.
     bnd (fc_loop m combine_2 (py_range (task_num m)) None) (\<lambda>prediction_all.
     case prediction_all of None \<Rightarrow> Inl UnboundLocalError | Some p \<Rightarrow> Inr p)))"

text \<open>
  What the caller binds to \<^verbatim>\<open>feats_list\<close> (lines 136 to 139): with
  \<^verbatim>\<open>return_weight\<close> the result of the readout is unpacked into two names, without it
  the result is the list. The constructor hands the readout the same flag, so the
  other shapes of result cannot reach this point from a constructed model; they are
  faults here.
\<close>

definition bind_feats_list :: "MTGL_ADMET \<Rightarrow> readout \<Rightarrow> error + tensor list" where
  "bind_feats_list m r =
     (if return_weight m
      then (case r of FeatsAndWeights fl al \<Rightarrow> Inr fl | Feats fl \<Rightarrow> Inl ValueError
            | SharedFeats t \<Rightarrow> Inl ValueError)
      else (case r of Feats fl \<Rightarrow> Inr fl | FeatsAndWeights fl al \<Rightarrow> Inl TypeError
            | SharedFeats t \<Rightarrow> Inl TypeError))"

text \<open>The two convolution blocks (lines 133 and 134).\<close>

definition gnn :: "MTGL_ADMET \<Rightarrow> graph \<Rightarrow> tensor \<Rightarrow> error + tensor" where
  "gnn m bg node_feats =
     bnd (ResGCNLayer_forward (conv1 m) bg node_feats) (\<lambda>h.
     ResGCNLayer_forward (conv2 m) bg h)"

text \<open>
  \<^verbatim>\<open>forward\<close>. The assignment \<^verbatim>\<open>bg.ndata['h'] = node_feats\<close> of line 142 is not
  inside any \<^verbatim>\<open>local_scope\<close>.
\<close>

definition MTGL_ADMET_forward :: "MTGL_ADMET \<Rightarrow> tensor \<Rightarrow> tensor gstate" where
  "MTGL_ADMET_forward m node_feats =
     bindS (\<lambda>bg. (gnn m bg node_feats, bg)) (\<lambda>node_feats.
     bindS (WeightAndSum_forward (weighted_sum_readout m) node_feats) (\<lambda>r.
     bindS (liftS (bind_feats_list m r)) (\<lambda>feats_list.
     bindS (set_ndata ''h'' node_feats) (\<lambda>u.
     bindS (mean_nodes ''h'') (\<lambda>hg.
     liftS (predict_from m feats_list hg))))))"


section \<open>An example batch\<close>

text \<open>
  The batch the theorems below are tried on: two molecules with 3 and 5 atoms, each a
  chain with its bonds in both directions, nothing stored in the node data yet; node
  features that are 1 everywhere; and parameters that are 0 everywhere.
\<close>

definition mol_batch :: graph where
  "mol_batch =
     \<lparr>batch_num_nodes = [3, 5],
      edges = [(0, 1), (1, 0), (1, 2), (2, 1),
               (3, 4), (4, 3), (4, 5), (5, 4), (5, 6), (6, 5), (6, 7), (7, 6)],
      ndata = Map.empty\<rparr>"

definition atom_feats :: "nat \<Rightarrow> tensor" where
  "atom_feats width = \<lparr>shape = [8, width], elem = (\<lambda>idx. 1)\<rparr>"

definition zero_params :: params where
  "zero_params name i idx = 0"


section \<open>Facts about the substrate and the layers\<close>

lemma getitem_Inr: "i < length xs \<Longrightarrow> getitem xs i = Inr (xs ! i)"
  by (simp add: getitem_def)


lemma bnd_Inr [simp]: "bnd (Inr v) f = f v"
  by (simp add: bnd_def)

lemma bnd_Inl [simp]: "bnd (Inl e) f = Inl e"
  by (simp add: bnd_def)

lemma bnd_eq_Inr: "bnd r f = Inr y \<longleftrightarrow> (\<exists>v. r = Inr v \<and> f v = Inr y)"
  by (cases r) simp_all

lemma bindS_Inr: "m g = (Inr v, g') \<Longrightarrow> bindS m f g = f v g'"
  by (simp add: bindS_def)

lemma bindS_Inl: "m g = (Inl e, g') \<Longrightarrow> bindS m f g = (Inl e, g')"
  by (simp add: bindS_def)

lemma bindS_eq_Inr:
  "bindS m f g = (Inr y, g'') \<longleftrightarrow> (\<exists>v g'. m g = (Inr v, g') \<and> f v g' = (Inr y, g''))"
  by (auto simp: bindS_def split: prod.splits sum.splits)

lemma bc_dims_same: "bc_dims xs xs = Some xs"
  by (induction xs) simp_all

lemma broadcast_shape_same: "broadcast_shape s s = Some s"
  by (simp add: broadcast_shape_def bc_dims_same)

lemma tadd_same_shape:
  "shape a = shape b \<Longrightarrow> \<exists>c. tadd a b = Inr c \<and> shape c = shape a"
  by (simp add: tadd_def broadcast2_def broadcast_shape_same)

lemma Linear_forward_ok:
  "shape x = pre @ [in_features l] \<Longrightarrow>
   \<exists>y. Linear_forward l x = Inr y \<and> shape y = pre @ [out_features l]"
  by (simp add: Linear_forward_def)

lemma Linear_forward_Inr:
  "Linear_forward l x = Inr y \<Longrightarrow>
   shape x \<noteq> [] \<and> last (shape x) = in_features l \<and> shape y = butlast (shape x) @ [out_features l]"
  by (auto simp: Linear_forward_def split: if_splits)

lemma nn_Linear_forward_ok:
  "shape x = pre @ [i] \<Longrightarrow>
   \<exists>y. Linear_forward (nn_Linear i o' w b) x = Inr y \<and> shape y = pre @ [o']"
  by (simp add: Linear_forward_def nn_Linear_def)

lemma tmul_column:
  "shape a = [n, d] \<Longrightarrow> shape w = [n, 1] \<Longrightarrow> \<exists>c. tmul a w = Inr c \<and> shape c = [n, d]"
  by (auto simp: tmul_def broadcast2_def broadcast_shape_def)


lemma length_2_shape: "length (s::nat list) = 2 \<longleftrightarrow> (\<exists>a b. s = [a, b])"
  by (cases s; cases "tl s"; cases "tl (tl s)") auto

lemma tadd_bias:
  "shape a = [n, d] \<Longrightarrow> shape b = [d] \<Longrightarrow> \<exists>c. tadd a b = Inr c \<and> shape c = [n, d]"
  by (auto simp: tadd_def broadcast2_def broadcast_shape_def)

lemma matmul_ok:
  "shape a = [n, k] \<Longrightarrow> shape w = [k, m] \<Longrightarrow> \<exists>c. matmul a w = Inr c \<and> shape c = [n, m]"
  by (simp add: matmul_def)

lemma aggregate_ok:
  "shape t = [num_nodes g, k] \<Longrightarrow> 0 < k \<Longrightarrow> \<exists>c. aggregate g t = Inr c \<and> shape c = [num_nodes g, k]"
  by (simp add: aggregate_def)

lemma shape_degree_column: "shape (degree_column g deg) = [num_nodes g, 1]"
  by (simp add: degree_column_def)

lemma GraphConv_forward_ok:
  assumes "shape x = [num_nodes g, gc_in_feats l]" and "\<not> zero_in_degree g"
    and "0 < gc_in_feats l" and "0 < gc_out_feats l"
    and "shape (gc_weight l) = [gc_in_feats l, gc_out_feats l]"
    and "shape (gc_bias l) = [gc_out_feats l]"
  shows "\<exists>y. GraphConv_forward l g x = Inr y \<and> shape y = [num_nodes g, gc_out_feats l]"
proof -
  obtain fs where fs: "tmul x (degree_column g out_degree) = Inr fs"
    "shape fs = [num_nodes g, gc_in_feats l]"
    using tmul_column [OF assms(1) shape_degree_column] by blast
  have "\<exists>r. (if gc_out_feats l < gc_in_feats l
             then bnd (matmul fs (gc_weight l)) (\<lambda>feat_src. aggregate g feat_src)
             else bnd (aggregate g fs) (\<lambda>rst. matmul rst (gc_weight l))) = Inr r
          \<and> shape r = [num_nodes g, gc_out_feats l]"
  proof (cases "gc_out_feats l < gc_in_feats l")
    case True
    obtain m where m: "matmul fs (gc_weight l) = Inr m" "shape m = [num_nodes g, gc_out_feats l]"
      using matmul_ok [OF fs(2) assms(5)] by blast
    from aggregate_ok [OF m(2) assms(4)] m(1) True show ?thesis by auto
  next
    case False
    obtain a where a: "aggregate g fs = Inr a" "shape a = [num_nodes g, gc_in_feats l]"
      using aggregate_ok [OF fs(2) assms(3)] by blast
    from matmul_ok [OF a(2) assms(5)] a(1) False show ?thesis by auto
  qed
  then obtain r where r: "(if gc_out_feats l < gc_in_feats l
             then bnd (matmul fs (gc_weight l)) (\<lambda>feat_src. aggregate g feat_src)
             else bnd (aggregate g fs) (\<lambda>rst. matmul rst (gc_weight l))) = Inr r"
    "shape r = [num_nodes g, gc_out_feats l]" by blast
  obtain r2 where r2: "tmul r (degree_column g in_degree) = Inr r2"
    "shape r2 = [num_nodes g, gc_out_feats l]"
    using tmul_column [OF r(2) shape_degree_column] by blast
  obtain r3 where r3: "tadd r2 (gc_bias l) = Inr r3" "shape r3 = [num_nodes g, gc_out_feats l]"
    using tadd_bias [OF r2(2) assms(6)] by blast
  show ?thesis
    using assms(1,2) fs(1) r(1) r2(1) r3
    by (simp add: GraphConv_forward_def pointwise_def)
qed

lemma tmul_degree_column_Inr:
  assumes "tmul x (degree_column g deg) = Inr fs" and "shape x = [m, k]"
  shows "shape fs = [if m = 1 then num_nodes g else m, k]
         \<and> (m = num_nodes g \<or> m = 1 \<or> num_nodes g = 1)"
  using assms
  by (auto simp: tmul_def broadcast2_def broadcast_shape_def degree_column_def
      split: if_splits option.splits)

lemma matmul_Inr:
  "matmul a w = Inr c \<Longrightarrow> shape a = [n, k] \<Longrightarrow> shape w = [i, o'] \<Longrightarrow> k = i \<and> shape c = [n, o']"
  by (auto simp: matmul_def split: if_splits)

lemma aggregate_Inr:
  "aggregate g t = Inr c \<Longrightarrow> shape t = [n, k] \<Longrightarrow> n = num_nodes g \<and> 0 < k \<and> shape c = [n, k]"
  by (auto simp: aggregate_def split: if_splits)

lemma GraphConv_forward_Inr:
  assumes "GraphConv_forward l g x = Inr y"
    and "shape (gc_weight l) = [gc_in_feats l, gc_out_feats l]"
    and "shape (gc_bias l) = [gc_out_feats l]"
  shows "\<not> zero_in_degree g \<and> shape y = [num_nodes g, gc_out_feats l]
         \<and> 0 < gc_in_feats l \<and> 0 < gc_out_feats l
         \<and> (shape x = [num_nodes g, gc_in_feats l] \<or> shape x = [1, gc_in_feats l])"
proof -
  from assms(1) have z: "\<not> zero_in_degree g" and "length (shape x) = 2"
    by (auto simp: GraphConv_forward_def split: if_splits)
  then obtain m k where x: "shape x = [m, k]" by (auto simp: length_2_shape)
  from assms(1) z x obtain fs r r2 r3 where
    fs: "tmul x (degree_column g out_degree) = Inr fs" and
    r: "(if gc_out_feats l < gc_in_feats l
             then bnd (matmul fs (gc_weight l)) (\<lambda>feat_src. aggregate g feat_src)
             else bnd (aggregate g fs) (\<lambda>rst. matmul rst (gc_weight l))) = Inr r" and
    r2: "tmul r (degree_column g in_degree) = Inr r2" and
    r3: "tadd r2 (gc_bias l) = Inr r3" and
    y: "y = pointwise (gc_activation l) r3"
    by (auto simp: GraphConv_forward_def bnd_eq_Inr)
  let ?R = "if m = 1 then num_nodes g else m"
  from tmul_degree_column_Inr [OF fs x] have
    sfs: "shape fs = [?R, k]" and mm: "m = num_nodes g \<or> m = 1 \<or> num_nodes g = 1" by simp_all
  have core: "k = gc_in_feats l \<and> ?R = num_nodes g \<and> 0 < gc_in_feats l \<and> 0 < gc_out_feats l
              \<and> shape r = [num_nodes g, gc_out_feats l]"
  proof (cases "gc_out_feats l < gc_in_feats l")
    case True
    with r obtain mm' where m1: "matmul fs (gc_weight l) = Inr mm'" and a1: "aggregate g mm' = Inr r"
      by (auto simp: bnd_eq_Inr)
    from matmul_Inr [OF m1 sfs assms(2)] have k: "k = gc_in_feats l"
      and smm: "shape mm' = [?R, gc_out_feats l]" by simp_all
    from aggregate_Inr [OF a1 smm] True k show ?thesis by auto
  next
    case False
    with r obtain a where a1: "aggregate g fs = Inr a" and m1: "matmul a (gc_weight l) = Inr r"
      by (auto simp: bnd_eq_Inr)
    from aggregate_Inr [OF a1 sfs] have R: "?R = num_nodes g" and k0: "0 < k"
      and sa: "shape a = [?R, k]" by simp_all
    from matmul_Inr [OF m1 sa assms(2)] R k0 False show ?thesis by auto
  qed
  then have sr: "shape r = [num_nodes g, gc_out_feats l]" by simp
  obtain r2' where "tmul r (degree_column g in_degree) = Inr r2'"
    "shape r2' = [num_nodes g, gc_out_feats l]"
    using tmul_column [OF sr shape_degree_column] by blast
  with r2 have sr2: "shape r2 = [num_nodes g, gc_out_feats l]" by simp
  obtain r3' where "tadd r2 (gc_bias l) = Inr r3'" "shape r3' = [num_nodes g, gc_out_feats l]"
    using tadd_bias [OF sr2 assms(3)] by blast
  with r3 y have sy: "shape y = [num_nodes g, gc_out_feats l]" by (simp add: pointwise_def)
  have "shape x = [num_nodes g, gc_in_feats l] \<or> shape x = [1, gc_in_feats l]"
    using core x by (auto split: if_splits)
  with z sy core show ?thesis by simp
qed

lemma BatchNorm1d_forward_ok:
  "shape x = [n, num_features l] \<Longrightarrow> \<not> (training l \<and> n = 1) \<Longrightarrow>
   \<exists>y. BatchNorm1d_forward l x = Inr y \<and> shape y = [n, num_features l]"
  by (auto simp: BatchNorm1d_forward_def)

lemma del_local_None: "del_local None = Inl UnboundLocalError"
  by (simp add: del_local_def)

lemma ResGCNLayer_forward_residual_needed:
  "\<not> residual l \<Longrightarrow> ResGCNLayer_forward l bg x \<noteq> Inr y"
  by (auto simp: ResGCNLayer_forward_def bnd_eq_Inr del_local_def split: if_splits option.splits)

lemma BatchNorm1d_forward_Inr:
  "BatchNorm1d_forward l x = Inr y \<Longrightarrow> shape y = shape x \<and> \<not> (training l \<and> hd (shape x) = 1)"
  by (auto simp: BatchNorm1d_forward_def split: if_splits)

lemma tadd_rows:
  "shape a = [n, d] \<Longrightarrow> shape b = [m, d] \<Longrightarrow> m = n \<or> m = 1 \<Longrightarrow>
   \<exists>c. tadd a b = Inr c \<and> shape c = [n, d]"
  by (auto simp: tadd_def broadcast2_def broadcast_shape_def)

lemma shape_dgl_GraphConv:
  "gc_in_feats (dgl_GraphConv i o' act \<theta> name) = i"
  "gc_out_feats (dgl_GraphConv i o' act \<theta> name) = o'"
  "shape (gc_weight (dgl_GraphConv i o' act \<theta> name)) = [i, o']"
  "shape (gc_bias (dgl_GraphConv i o' act \<theta> name)) = [o']"
  by (simp_all add: dgl_GraphConv_def)

lemma ResGCNLayer_init_sel:
  "graph_conv_layer (ResGCNLayer_init i o' act res bnorm tr \<theta> name)
     = dgl_GraphConv i o' act \<theta> (name @ ''.graph_conv_layer'')"
  "residual (ResGCNLayer_init i o' act res bnorm tr \<theta> name) = res"
  "bn (ResGCNLayer_init i o' act res bnorm tr \<theta> name) = bnorm"
  "activation (ResGCNLayer_init i o' act res bnorm tr \<theta> name) = act"
  "res_connection (ResGCNLayer_init i o' act True bnorm tr \<theta> name)
     = Some (nn_Linear i o' (\<theta> (name @ ''.res_connection.weight'') 0)
                            (\<theta> (name @ ''.res_connection.bias'') 0))"
  "bn_layer (ResGCNLayer_init i o' act res True tr \<theta> name)
     = Some (nn_BatchNorm1d o' tr \<theta> (name @ ''.bn_layer'') 0)"
  by (simp_all add: ResGCNLayer_init_def)

lemma ResGCNLayer_forward_ok:
  assumes "shape x = [num_nodes bg, i]" and "\<not> zero_in_degree bg" and "0 < i" and "0 < o'"
    and "\<not> (bnorm \<and> tr \<and> num_nodes bg = 1)"
  shows "\<exists>y. ResGCNLayer_forward (ResGCNLayer_init i o' act True bnorm tr \<theta> name) bg x = Inr y
           \<and> shape y = [num_nodes bg, o']"
proof -
  let ?l = "ResGCNLayer_init i o' act True bnorm tr \<theta> name"
  obtain c where c: "GraphConv_forward (graph_conv_layer ?l) bg x = Inr c"
      "shape c = [num_nodes bg, o']"
    using GraphConv_forward_ok [of x bg "graph_conv_layer ?l"] assms(1,2,3,4)
    by (auto simp: ResGCNLayer_init_sel shape_dgl_GraphConv)
  obtain r where r: "Linear_forward (nn_Linear i o' (\<theta> (name @ ''.res_connection.weight'') 0)
                             (\<theta> (name @ ''.res_connection.bias'') 0)) x = Inr r"
      "shape r = [num_nodes bg, o']"
    using nn_Linear_forward_ok [of x "[num_nodes bg]" i] assms(1) by fastforce
  obtain s where s: "tadd c (pointwise act r) = Inr s" "shape s = [num_nodes bg, o']"
    using tadd_same_shape [of c "pointwise act r"] c(2) r(2) by (auto simp: pointwise_def)
  show ?thesis
  proof (cases bnorm)
    case False
    then show ?thesis using c r s
      by (simp add: ResGCNLayer_forward_def ResGCNLayer_init_def del_local_def)
  next
    case True
    obtain b where b: "BatchNorm1d_forward (nn_BatchNorm1d o' tr \<theta> (name @ ''.bn_layer'') 0) s = Inr b"
      "shape b = [num_nodes bg, o']"
      using BatchNorm1d_forward_ok [of s "num_nodes bg" "nn_BatchNorm1d o' tr \<theta> (name @ ''.bn_layer'') 0"]
        s(2) assms(5) True
      by (auto simp: nn_BatchNorm1d_def)
    with True show ?thesis using c r s
      by (simp add: ResGCNLayer_forward_def ResGCNLayer_init_def del_local_def)
  qed
qed

lemma ResGCNLayer_forward_no_residual:
  assumes "shape x = [num_nodes bg, i]" and "\<not> zero_in_degree bg" and "0 < i" and "0 < o'"
    and "\<not> (bnorm \<and> tr \<and> num_nodes bg = 1)"
  shows "ResGCNLayer_forward (ResGCNLayer_init i o' act False bnorm tr \<theta> name) bg x = Inl UnboundLocalError"
proof -
  let ?l = "ResGCNLayer_init i o' act False bnorm tr \<theta> name"
  obtain c where c: "GraphConv_forward (graph_conv_layer ?l) bg x = Inr c"
      "shape c = [num_nodes bg, o']"
    using GraphConv_forward_ok [of x bg "graph_conv_layer ?l"] assms(1,2,3,4)
    by (auto simp: ResGCNLayer_init_sel shape_dgl_GraphConv)
  show ?thesis
  proof (cases bnorm)
    case False
    then show ?thesis using c
      by (simp add: ResGCNLayer_forward_def ResGCNLayer_init_def del_local_def)
  next
    case True
    obtain b where b: "BatchNorm1d_forward (nn_BatchNorm1d o' tr \<theta> (name @ ''.bn_layer'') 0) c = Inr b"
      using BatchNorm1d_forward_ok [of c "num_nodes bg" "nn_BatchNorm1d o' tr \<theta> (name @ ''.bn_layer'') 0"]
        c(2) assms(5) True
      by (auto simp: nn_BatchNorm1d_def)
    with True show ?thesis using c
      by (simp add: ResGCNLayer_forward_def ResGCNLayer_init_def del_local_def)
  qed
qed

lemma ResGCNLayer_forward_Inr:
  assumes "ResGCNLayer_forward (ResGCNLayer_init i o' act True True tr \<theta> name) bg x = Inr y"
  shows "\<not> zero_in_degree bg \<and> shape y = [num_nodes bg, o'] \<and> 0 < i \<and> 0 < o'
         \<and> \<not> (tr \<and> num_nodes bg = 1)
         \<and> (shape x = [num_nodes bg, i] \<or> shape x = [1, i])"
proof -
  let ?l = "ResGCNLayer_init i o' act True True tr \<theta> name"
  from assms obtain c r s where
    c: "GraphConv_forward (dgl_GraphConv i o' act \<theta> (name @ ''.graph_conv_layer'')) bg x = Inr c" and
    r: "Linear_forward (nn_Linear i o' (\<theta> (name @ ''.res_connection.weight'') 0)
                             (\<theta> (name @ ''.res_connection.bias'') 0)) x = Inr r" and
    s: "tadd c (pointwise act r) = Inr s" and
    b: "BatchNorm1d_forward (nn_BatchNorm1d o' tr \<theta> (name @ ''.bn_layer'') 0) s = Inr y"
    by (auto simp: ResGCNLayer_forward_def bnd_eq_Inr ResGCNLayer_init_sel Let_def split: if_splits)
  from GraphConv_forward_Inr [OF c] have
    g: "\<not> zero_in_degree bg" "shape c = [num_nodes bg, o']" "0 < i" "0 < o'"
      "shape x = [num_nodes bg, i] \<or> shape x = [1, i]"
    by (simp_all add: shape_dgl_GraphConv)
  from g(5) obtain m where x: "shape x = [m, i]" and m: "m = num_nodes bg \<or> m = 1" by auto
  from Linear_forward_Inr [OF r] x have sr: "shape (pointwise act r) = [m, o']"
    by (simp add: nn_Linear_def pointwise_def)
  from tadd_rows [OF g(2) sr m] s have ss: "shape s = [num_nodes bg, o']" by auto
  from BatchNorm1d_forward_Inr [OF b] ss have "shape y = [num_nodes bg, o']"
    "\<not> (tr \<and> num_nodes bg = 1)" by (simp_all add: nn_BatchNorm1d_def)
  with g show ?thesis by simp
qed

lemma num_nodes_ndata [simp]: "num_nodes (g\<lparr>ndata := m\<rparr>) = num_nodes g"
  by (simp add: num_nodes_def)

lemma batch_size_ndata [simp]: "batch_size (g\<lparr>ndata := m\<rparr>) = batch_size g"
  by (simp add: batch_size_def)

lemma segment_sum_ndata [simp]: "segment_sum (g\<lparr>ndata := m\<rparr>) t = segment_sum g t"
  by (simp add: segment_sum_def node_offset_def)

lemma set_ndata_ok:
  "shape t = num_nodes g # rest \<Longrightarrow>
   set_ndata k t g = (Inr (), g\<lparr>ndata := (ndata g)(k \<mapsto> t)\<rparr>)"
  by (simp add: set_ndata_def)

lemma atom_weight_forward_ok:
  "shape feats = [n, d] \<Longrightarrow>
   \<exists>w. atom_weight_forward (atom_weight d \<theta> name i) feats = Inr w \<and> shape w = [n, 1]"
proof -
  assume "shape feats = [n, d]"
  then obtain y where "Linear_forward (atom_weight d \<theta> name i) feats = Inr y" "shape y = [n, 1]"
    using nn_Linear_forward_ok [of feats "[n]" d 1] by (fastforce simp: atom_weight_def)
  then show ?thesis
    by (simp add: atom_weight_forward_def pointwise_def)
qed


lemma shape_segment_sum: "shape (segment_sum g t) = batch_size g # tl (shape t)"
  by (simp add: segment_sum_def)

lemma weighted_readout_ok:
  assumes "shape feats = [num_nodes bg, d]" and "shape w = [num_nodes bg, 1]" and "0 < d"
  shows "\<exists>c. tmul feats w = Inr c \<and> shape c = [num_nodes bg, d] \<and>
          local_scope
           (bindS (set_ndata ''h'' feats) (\<lambda>u.
            bindS (liftS (Inr w)) (\<lambda>weight.
            bindS (set_ndata ''w'' weight) (\<lambda>u.
            bindS (sum_nodes ''h'' ''w'') (\<lambda>specific_feats_sum.
            bindS (get_ndata ''w'') (\<lambda>w.
            returnS (specific_feats_sum, w))))))) bg = (Inr (segment_sum bg c, w), bg)"
proof -
  obtain c where c: "tmul feats w = Inr c" "shape c = [num_nodes bg, d]"
    using tmul_column [OF assms(1,2)] by blast
  show ?thesis
    using assms c
    by (simp add: local_scope_def bindS_def set_ndata_def liftS_def sum_nodes_def get_ndata_def
        returnS_def segment_reduce_def)
qed

lemma specific_scope_ok:
  assumes "shape feats = [num_nodes bg, d]" and "i < nat n" and "0 < d"
  shows "\<exists>w c. atom_weight_forward
                 (atom_weighting_specific (WeightAndSum_init d n att rw \<theta> name) ! i) feats = Inr w
          \<and> tmul feats w = Inr c
          \<and> specific_scope (WeightAndSum_init d n att rw \<theta> name) feats i bg
              = (Inr (segment_sum bg c, w), bg)
          \<and> shape w = [num_nodes bg, 1] \<and> shape c = [num_nodes bg, d]"
proof -
  let ?ws = "WeightAndSum_init d n att rw \<theta> name"
  have nth: "atom_weighting_specific ?ws ! i = atom_weight d \<theta> (name @ ''.atom_weighting_specific'') i"
    and len: "i < length (atom_weighting_specific ?ws)"
    using assms(2) by (simp_all add: WeightAndSum_init_def py_range_def)
  obtain w where w:
    "atom_weight_forward (atom_weighting_specific ?ws ! i) feats = Inr w"
    "shape w = [num_nodes bg, 1]"
    using atom_weight_forward_ok [OF assms(1)] nth by fastforce
  have "specific_scope ?ws feats i bg =
      local_scope
           (bindS (set_ndata ''h'' feats) (\<lambda>u.
            bindS (liftS (Inr w)) (\<lambda>weight.
            bindS (set_ndata ''w'' weight) (\<lambda>u.
            bindS (sum_nodes ''h'' ''w'') (\<lambda>specific_feats_sum.
            bindS (get_ndata ''w'') (\<lambda>w.
            returnS (specific_feats_sum, w))))))) bg"
    using w(1) len by (simp add: specific_scope_def getitem_def)
  with weighted_readout_ok [OF assms(1) w(2) assms(3)] w show ?thesis by auto
qed

lemma specific_loop_ok:
  assumes "shape feats = [num_nodes bg, d]" and "\<forall>i\<in>set is. i < nat n" and "0 < d"
  shows "\<exists>fl al. specific_loop (WeightAndSum_init d n att rw \<theta> name) feats is acc bg
                   = (Inr (fst acc @ fl, snd acc @ al), bg)
          \<and> length fl = length is \<and> length al = length is
          \<and> (\<forall>k<length is. specific_scope (WeightAndSum_init d n att rw \<theta> name) feats (is ! k) bg
                               = (Inr (fl ! k, al ! k), bg))"
  using assms(2)
proof (induction "is" arbitrary: acc)
  case Nil
  then show ?case by (simp add: returnS_def)
next
  case (Cons i rest)
  let ?ws = "WeightAndSum_init d n att rw \<theta> name"
  obtain e w where ew: "specific_scope ?ws feats i bg = (Inr (e, w), bg)"
    using specific_scope_ok [OF assms(1) _ assms(3), of i n att rw \<theta> name] Cons.prems
    by fastforce
  obtain fl al where r:
    "specific_loop ?ws feats rest (fst acc @ [e], snd acc @ [w]) bg
       = (Inr ((fst acc @ [e]) @ fl, (snd acc @ [w]) @ al), bg)"
    "length fl = length rest" "length al = length rest"
    "\<forall>k<length rest. specific_scope ?ws feats (rest ! k) bg = (Inr (fl ! k, al ! k), bg)"
    using Cons.IH [of "(fst acc @ [e], snd acc @ [w])"] Cons.prems by auto
  have "specific_loop ?ws feats (i # rest) acc bg = (Inr (fst acc @ (e # fl), snd acc @ (w # al)), bg)"
    using ew r(1) by (simp add: bindS_def)
  moreover have "\<forall>k<length (i # rest).
      specific_scope ?ws feats ((i # rest) ! k) bg = (Inr ((e # fl) ! k, (w # al) ! k), bg)"
    using ew r(4) by (auto simp: nth_Cons split: nat.splits)
  ultimately show ?case using r(2,3)
    by (intro exI [of _ "e # fl"] exI [of _ "w # al"]) simp
qed

lemma shared_scope_ok:
  assumes "shape feats = [num_nodes bg, d]" and "0 < d"
  shows "\<exists>w c. atom_weight_forward (shared_weighting (WeightAndSum_init d n att rw \<theta> name)) feats = Inr w
          \<and> tmul feats w = Inr c
          \<and> shared_scope (WeightAndSum_init d n att rw \<theta> name) feats bg = (Inr (segment_sum bg c), bg)
          \<and> shape w = [num_nodes bg, 1] \<and> shape c = [num_nodes bg, d]"
proof -
  let ?ws = "WeightAndSum_init d n att rw \<theta> name"
  obtain w where w:
    "atom_weight_forward (shared_weighting ?ws) feats = Inr w"
    "shape w = [num_nodes bg, 1]"
    using atom_weight_forward_ok [OF assms(1)] by (fastforce simp: WeightAndSum_init_def)
  obtain c where c: "tmul feats w = Inr c" "shape c = [num_nodes bg, d]"
    using tmul_column [OF assms(1) w(2)] by blast
  have "shared_scope ?ws feats bg = (Inr (segment_sum bg c), bg)"
    using assms w c
    by (simp add: shared_scope_def local_scope_def bindS_def set_ndata_def
        liftS_def sum_nodes_def get_ndata_def segment_reduce_def)
  with w c show ?thesis by blast
qed

lemma num_nodes_mol_batch: "num_nodes mol_batch = 8"
  by (simp add: num_nodes_def mol_batch_def)

lemma batch_size_mol_batch: "batch_size mol_batch = 2"
  by (simp add: batch_size_def mol_batch_def)

lemma shape_atom_feats: "shape (atom_feats w) = [num_nodes mol_batch, w]"
  by (simp add: atom_feats_def num_nodes_mol_batch)

lemma zero_in_degree_mol_batch: "\<not> zero_in_degree mol_batch"
  by (simp add: zero_in_degree_def num_nodes_def in_degree_def mol_batch_def upt_rec)

lemma zero_in_degree_ndata [simp]: "zero_in_degree (g\<lparr>ndata := m\<rparr>) = zero_in_degree g"
  by (simp add: zero_in_degree_def in_degree_def)

lemma specific_scope_frame:
  "specific_scope ws feats i g = (Inr v, g') \<Longrightarrow> g' = g"
  by (auto simp: specific_scope_def local_scope_def bindS_def set_ndata_def liftS_def
      sum_nodes_def get_ndata_def returnS_def segment_reduce_def
      split: prod.splits sum.splits if_splits option.splits)

lemma shared_scope_frame:
  "shared_scope ws feats g = (Inr v, g') \<Longrightarrow> g' = g"
  by (auto simp: shared_scope_def local_scope_def bindS_def set_ndata_def liftS_def
      sum_nodes_def get_ndata_def returnS_def segment_reduce_def
      split: prod.splits sum.splits if_splits option.splits)

lemma specific_loop_frame:
  "specific_loop ws feats is acc g = (Inr v, g') \<Longrightarrow> g' = g"
proof (induction "is" arbitrary: acc g)
  case Nil
  then show ?case by (simp add: returnS_def)
next
  case (Cons i rest)
  from Cons.prems obtain e w g1 where
    1: "specific_scope ws feats i g = (Inr (e, w), g1)" and
    2: "specific_loop ws feats rest (fst acc @ [e], snd acc @ [w]) g1 = (Inr v, g')"
    by (auto simp: bindS_eq_Inr)
  from 1 have "g1 = g" by (rule specific_scope_frame)
  with Cons.IH [OF 2] show ?case by simp
qed

lemma WeightAndSum_forward_frame:
  "WeightAndSum_forward ws feats g = (Inr r, g') \<Longrightarrow> g' = g"
  by (auto simp: WeightAndSum_forward_def bindS_eq_Inr returnS_def
      dest!: specific_loop_frame shared_scope_frame)


lemma WeightAndSum_init_sel:
  "WeightAndSum.task_num (WeightAndSum_init d n att rw \<theta> name) = n"
  "attention (WeightAndSum_init d n att rw \<theta> name) = att"
  "WeightAndSum.return_weight (WeightAndSum_init d n att rw \<theta> name) = rw"
  "in_feats (WeightAndSum_init d n att rw \<theta> name) = d"
  by (simp_all add: WeightAndSum_init_def)

lemma WeightAndSum_forward_ok:
  assumes "shape feats = [num_nodes bg, d]" and "0 < d"
  shows "\<exists>fl al sh. WeightAndSum_forward (WeightAndSum_init d n att rw \<theta> name) feats bg
            = (Inr (if att then (if rw then FeatsAndWeights fl al else Feats fl)
                    else SharedFeats sh), bg)
          \<and> length fl = nat n \<and> length al = nat n
          \<and> (\<forall>k<nat n. specific_scope (WeightAndSum_init d n att rw \<theta> name) feats k bg
                          = (Inr (fl ! k, al ! k), bg))
          \<and> shared_scope (WeightAndSum_init d n att rw \<theta> name) feats bg = (Inr sh, bg)"
proof -
  let ?ws = "WeightAndSum_init d n att rw \<theta> name"
  obtain fl al where l:
    "specific_loop ?ws feats (py_range n) ([], []) bg = (Inr (fl, al), bg)"
    "length fl = nat n" "length al = nat n"
    "\<forall>k<nat n. specific_scope ?ws feats ([0..<nat n] ! k) bg = (Inr (fl ! k, al ! k), bg)"
    using specific_loop_ok [OF assms(1) _ assms(2), of "py_range n" n att rw \<theta> name "([], [])"]
    by (auto simp: py_range_def)
  obtain sh where sh: "shared_scope ?ws feats bg = (Inr sh, bg)"
    using shared_scope_ok [OF assms, of n att rw \<theta> name] by blast
  have "WeightAndSum_forward ?ws feats bg
          = (Inr (if att then (if rw then FeatsAndWeights fl al else Feats fl)
                  else SharedFeats sh), bg)"
    using l(1) sh by (simp add: WeightAndSum_forward_def bindS_def returnS_def WeightAndSum_init_sel)
  moreover have "\<forall>k<nat n. specific_scope ?ws feats k bg = (Inr (fl ! k, al ! k), bg)"
    using l(4) by simp
  ultimately show ?thesis using l(2,3) sh by blast
qed



text \<open>
  Claim C6. Whenever \<^verbatim>\<open>WeightAndSum.forward\<close> returns, the graph it leaves behind is
  the graph it was given: the fields \<^verbatim>\<open>'h'\<close> and \<^verbatim>\<open>'w'\<close> and the node weights
  were written in scopes that have been discarded, and the node data is unchanged.
\<close>

theorem WeightAndSum_forward_frame_graph:
  "WeightAndSum_forward ws feats bg = (Inr r, bg') \<Longrightarrow> bg' = bg \<and> ndata bg' = ndata bg"
  using WeightAndSum_forward_frame by blast

theorem WeightAndSum_forward_frame_graph_witness:
  "snd (WeightAndSum_forward (WeightAndSum_init 64 5 True False zero_params ''readout'')
          (atom_feats 64) mol_batch) = mol_batch
   \<and> ndata (snd (WeightAndSum_forward (WeightAndSum_init 64 5 True False zero_params ''readout'')
          (atom_feats 64) mol_batch)) ''h'' = None
   \<and> ndata (snd (WeightAndSum_forward (WeightAndSum_init 64 5 True False zero_params ''readout'')
          (atom_feats 64) mol_batch)) ''w'' = None"
proof -
  obtain fl where "WeightAndSum_forward (WeightAndSum_init 64 5 True False zero_params ''readout'')
      (atom_feats 64) mol_batch = (Inr (Feats fl), mol_batch)"
    using WeightAndSum_forward_ok [of "atom_feats 64" mol_batch 64 5 True False zero_params "''readout''"]
    by (auto simp: shape_atom_feats)
  then obtain r g where
    eq: "WeightAndSum_forward (WeightAndSum_init 64 5 True False zero_params ''readout'')
      (atom_feats 64) mol_batch = (Inr r, g)" by blast
  from WeightAndSum_forward_frame_graph [OF eq] eq show ?thesis
    by (simp add: mol_batch_def)
qed

text \<open>
  Claim C8. A readout constructed with \<^verbatim>\<open>attention=True\<close> and
  \<^verbatim>\<open>return_weight=True\<close>, called on node features of shape (N, in_feats), in_feats
  positive, for a graph of N nodes, returns the list of embeddings together with one
  node-weight tensor per task; the weight tensor of task \<open>k\<close> is what the \<open>k\<close>-th
  weighting layer computes from the features, and it has N rows (and one column). (On
  features of width 0 the segment reduction behind \<^verbatim>\<open>sum_nodes\<close> raises instead, so
  the width is required to be positive.)
\<close>

theorem WeightAndSum_forward_return_weight:
  assumes "shape feats = [num_nodes bg, d]" and "0 < d"
  shows "\<exists>fl al. WeightAndSum_forward (WeightAndSum_init d n True True \<theta> name) feats bg
               = (Inr (FeatsAndWeights fl al), bg)
          \<and> length fl = nat n \<and> length al = nat n
          \<and> (\<forall>k<nat n. atom_weight_forward
                  (atom_weighting_specific (WeightAndSum_init d n True True \<theta> name) ! k) feats
                    = Inr (al ! k)
                \<and> shape (al ! k) = [hd (shape feats), 1])"
proof -
  let ?ws = "WeightAndSum_init d n True True \<theta> name"
  obtain fl al where r:
    "WeightAndSum_forward ?ws feats bg = (Inr (FeatsAndWeights fl al), bg)"
    "length fl = nat n" "length al = nat n"
    "\<forall>k<nat n. specific_scope ?ws feats k bg = (Inr (fl ! k, al ! k), bg)"
    using WeightAndSum_forward_ok [OF assms, of n True True \<theta> name] by auto
  have "atom_weight_forward (atom_weighting_specific ?ws ! k) feats = Inr (al ! k)
          \<and> shape (al ! k) = [hd (shape feats), 1]" if "k < nat n" for k
    using specific_scope_ok [OF assms(1) that assms(2), of True True \<theta> name] r(4) that assms by auto
  with r(1,2,3) show ?thesis by blast
qed

theorem WeightAndSum_forward_return_weight_witness:
  "(case WeightAndSum_forward (WeightAndSum_init 64 5 True True zero_params ''readout'')
           (atom_feats 64) mol_batch of
      (Inr (FeatsAndWeights fl al), g) \<Rightarrow>
         length fl = 5 \<and> map shape al = [[8, 1], [8, 1], [8, 1], [8, 1], [8, 1]]
    | (Inr (Feats fl), g) \<Rightarrow> False
    | (Inr (SharedFeats t), g) \<Rightarrow> False
    | (Inl e, g) \<Rightarrow> False)"
proof -
  obtain fl al where r:
    "WeightAndSum_forward (WeightAndSum_init 64 5 True True zero_params ''readout'')
           (atom_feats 64) mol_batch = (Inr (FeatsAndWeights fl al), mol_batch)"
    "length fl = 5" "length al = 5"
    "\<forall>k<5. shape (al ! k) = [8, 1]"
    using WeightAndSum_forward_return_weight [of "atom_feats 64" mol_batch 64 5 zero_params "''readout''"]
    by (auto simp: atom_feats_def num_nodes_mol_batch)
  from r(3,4) have "map shape al = [[8, 1], [8, 1], [8, 1], [8, 1], [8, 1]]"
    by (auto simp: list_eq_iff_nth_eq nth_Cons split: nat.splits)
  with r(1,2) show ?thesis by simp
qed

lemma MTGL_ADMET_init_sel:
  "task_num (MTGL_ADMET_init i h d n rw c p tr \<theta>) = n"
  "return_weight (MTGL_ADMET_init i h d n rw c p tr \<theta>) = rw"
  "weighted_sum_readout (MTGL_ADMET_init i h d n rw c p tr \<theta>)
     = WeightAndSum_init d n True rw \<theta> ''weighted_sum_readout''"
  "num_gates (MTGL_ADMET_init i h d n rw c p tr \<theta>) = 4"
  "conv1 (MTGL_ADMET_init i h d n rw c p tr \<theta>) = ResGCNLayer_init i h relu True True tr \<theta> ''conv1''"
  "conv2 (MTGL_ADMET_init i h d n rw c p tr \<theta>) = ResGCNLayer_init h d relu True True tr \<theta> ''conv2''"
  "gates (MTGL_ADMET_init i h d n rw c p tr \<theta>)
     = map (\<lambda>k. nn_Linear 64 2 (\<theta> ''gates.weight'' k) (\<theta> ''gates.bias'' k)) (py_range n)"
  "fc_layers1 (MTGL_ADMET_init i h d n rw c p tr \<theta>)
     = map (fc_layer_init p d c tr \<theta> ''fc_layers1'') (py_range n)"
  "fc_layers2 (MTGL_ADMET_init i h d n rw c p tr \<theta>)
     = map (fc_layer_init p c c tr \<theta> ''fc_layers2'') (py_range n)"
  "output_layer1 (MTGL_ADMET_init i h d n rw c p tr \<theta>)
     = map (output_layer c 1 \<theta> ''output_layer1'') (py_range n)"
  by (simp_all add: MTGL_ADMET_init_def)

lemma gnn_ok:
  assumes "shape x = [num_nodes bg, i]" and "\<not> zero_in_degree bg"
    and "0 < i" and "0 < h" and "0 < d" and "\<not> (tr \<and> num_nodes bg = 1)"
  shows "\<exists>nf. gnn (MTGL_ADMET_init i h d n rw c p tr \<theta>) bg x = Inr nf \<and> shape nf = [num_nodes bg, d]"
proof -
  obtain y where y: "ResGCNLayer_forward (ResGCNLayer_init i h relu True True tr \<theta> ''conv1'') bg x = Inr y"
    "shape y = [num_nodes bg, h]"
    using ResGCNLayer_forward_ok [of x bg i h True tr relu \<theta> "''conv1''"] assms by auto
  obtain z where "ResGCNLayer_forward (ResGCNLayer_init h d relu True True tr \<theta> ''conv2'') bg y = Inr z"
    "shape z = [num_nodes bg, d]"
    using ResGCNLayer_forward_ok [of y bg h d True tr relu \<theta> "''conv2''"] y(2) assms by auto
  with y show ?thesis by (simp add: gnn_def MTGL_ADMET_init_sel)
qed

lemma gnn_Inr:
  assumes "gnn (MTGL_ADMET_init i h d n rw c p tr \<theta>) bg x = Inr nf"
  shows "shape nf = [num_nodes bg, d] \<and> 0 < d \<and> 0 < h \<and> 0 < i \<and> \<not> zero_in_degree bg
         \<and> \<not> (tr \<and> num_nodes bg = 1)
         \<and> (shape x = [num_nodes bg, i] \<or> shape x = [1, i])"
proof -
  from assms obtain y where
    1: "ResGCNLayer_forward (ResGCNLayer_init i h relu True True tr \<theta> ''conv1'') bg x = Inr y" and
    2: "ResGCNLayer_forward (ResGCNLayer_init h d relu True True tr \<theta> ''conv2'') bg y = Inr nf"
    by (auto simp: gnn_def MTGL_ADMET_init_sel bnd_eq_Inr)
  from ResGCNLayer_forward_Inr [OF 1] ResGCNLayer_forward_Inr [OF 2] show ?thesis by simp
qed

lemma specific_loop_length:
  "specific_loop ws feats is acc g = (Inr (fl, al), g') \<Longrightarrow>
   length fl = length (fst acc) + length is \<and> length al = length (snd acc) + length is"
proof (induction "is" arbitrary: acc g)
  case Nil
  then show ?case by (auto simp: returnS_def)
next
  case (Cons i rest)
  from Cons.prems obtain e w g1 where
    "specific_loop ws feats rest (fst acc @ [e], snd acc @ [w]) g1 = (Inr (fl, al), g')"
    by (auto simp: bindS_eq_Inr)
  from Cons.IH [OF this] show ?case by simp
qed

lemma WeightAndSum_forward_length:
  assumes "WeightAndSum_forward ws feats g = (Inr r, g')"
  shows "case r of Feats fl \<Rightarrow> length fl = nat (WeightAndSum.task_num ws)
         | FeatsAndWeights fl al \<Rightarrow> length fl = nat (WeightAndSum.task_num ws)
             \<and> length al = nat (WeightAndSum.task_num ws)
         | SharedFeats t \<Rightarrow> True"
proof -
  from assms obtain fl al g1 where
    "specific_loop ws feats (py_range (WeightAndSum.task_num ws)) ([], []) g = (Inr (fl, al), g1)"
    and r: "r = (if attention ws then (if WeightAndSum.return_weight ws then FeatsAndWeights fl al
                    else Feats fl) else SharedFeats (projr (fst (shared_scope ws feats g1))))"
    by (auto simp: WeightAndSum_forward_def bindS_eq_Inr returnS_def)
  from specific_loop_length [OF this(1)] r show ?thesis
    by (simp add: py_range_def)
qed

lemma unsqueeze_dim1:
  "shape x = [b, d] \<Longrightarrow>
   unsqueeze x 1 = Inr \<lparr>shape = [b, 1, d], elem = (\<lambda>idx. elem x (take 1 idx @ drop 2 idx))\<rparr>"
  by (simp add: unsqueeze_def norm_dim_def numeral_2_eq_2)

lemma unsqueeze_last:
  "shape g = [b, k] \<Longrightarrow>
   unsqueeze g (- 1) = Inr \<lparr>shape = [b, k, 1], elem = (\<lambda>idx. elem g (take 2 idx @ drop 3 idx))\<rparr>"
  by (simp add: unsqueeze_def norm_dim_def numeral_3_eq_3 numeral_2_eq_2)

lemma cat_dim1:
  "shape a = [b, p, d] \<Longrightarrow> shape c = [b, q, d] \<Longrightarrow>
   cat a c 1 = Inr \<lparr>shape = [b, p + q, d],
                    elem = (\<lambda>idx. if idx ! 1 < p then elem a idx else elem c (idx[1 := idx ! 1 - p]))\<rparr>"
  by (auto simp: cat_def norm_dim_def)

lemma cat_columns:
  "shape a = [b, p] \<Longrightarrow> shape c = [b, q] \<Longrightarrow>
   \<exists>r. cat a c 1 = Inr r \<and> shape r = [b, p + q]"
  by (simp add: cat_def norm_dim_def)

lemma tmul_gate:
  "shape w = [b, 2, d] \<Longrightarrow> shape g = [b, 2, 1] \<Longrightarrow>
   tmul w g = Inr \<lparr>shape = [b, 2, d],
                   elem = (\<lambda>idx. elem w (bc_index [b, 2, d] idx) * elem g (bc_index [b, 2, 1] idx))\<rparr>"
  by (auto simp: tmul_def broadcast2_def broadcast_shape_def)

lemma sum_dim1:
  "shape t = [b, k, d] \<Longrightarrow>
   sum_dim t 1 = Inr \<lparr>shape = [b, d],
                      elem = (\<lambda>idx. \<Sum>j<k. elem t (take 1 idx @ [j] @ drop 1 idx))\<rparr>"
  by (simp add: sum_dim_def norm_dim_def)

lemma shape_softmax: "shape (softmax t) = shape t"
  by (simp add: softmax_def)

lemma gate_step_ok:
  assumes "i < length fl" and "num_gates m < length fl"
    and "shape (fl ! i) = [b, d]" and "shape (fl ! num_gates m) = [b, d]"
    and "i < length (gates m)" and "gates m ! i = nn_Linear k 2 wt bs"
    and "shape hg = [b, k]"
  shows "\<exists>g c. Linear_forward (gates m ! i) hg = Inr g \<and> shape g = [b, 2]
           \<and> gate_step m fl hg i = Inr c \<and> shape c = [b, d]
           \<and> (\<forall>r<b. \<forall>j<d. elem c [r, j] =
                  elem (fl ! i) [r, j] * elem (softmax g) [r, 0]
                  + elem (fl ! num_gates m) [r, j] * elem (softmax g) [r, 1])"
proof -
  obtain g where g: "Linear_forward (gates m ! i) hg = Inr g" "shape g = [b, 2]"
    using nn_Linear_forward_ok [of hg "[b]" k 2 wt bs] assms(6,7) by auto
  let ?x1 = "\<lparr>shape = [b, 1, d], elem = (\<lambda>idx. elem (fl ! i) (take 1 idx @ drop 2 idx))\<rparr>"
  let ?y1 = "\<lparr>shape = [b, 1, d], elem = (\<lambda>idx. elem (fl ! num_gates m) (take 1 idx @ drop 2 idx))\<rparr>"
  let ?w = "\<lparr>shape = [b, 2, d],
             elem = (\<lambda>idx. if idx ! 1 < 1 then elem ?x1 idx else elem ?y1 (idx[1 := idx ! 1 - 1]))\<rparr>"
  let ?g1 = "\<lparr>shape = [b, 2, 1], elem = (\<lambda>idx. elem (softmax g) (take 2 idx @ drop 3 idx))\<rparr>"
  let ?wg = "\<lparr>shape = [b, 2, d],
              elem = (\<lambda>idx. elem ?w (bc_index [b, 2, d] idx) * elem ?g1 (bc_index [b, 2, 1] idx))\<rparr>"
  let ?c = "\<lparr>shape = [b, d], elem = (\<lambda>idx. \<Sum>j<2. elem ?wg (take 1 idx @ [j] @ drop 1 idx))\<rparr>"
  have x1: "unsqueeze (fl ! i) 1 = Inr ?x1" using unsqueeze_dim1 [OF assms(3)] .
  have y1: "unsqueeze (fl ! num_gates m) 1 = Inr ?y1" using unsqueeze_dim1 [OF assms(4)] .
  have w: "cat ?x1 ?y1 1 = Inr ?w" using cat_dim1 [of ?x1 b 1 d ?y1 1] by simp
  have g1: "unsqueeze (softmax g) (- 1) = Inr ?g1"
    using unsqueeze_last [of "softmax g" b 2] g(2) by (simp add: shape_softmax)
  have wg: "tmul ?w ?g1 = Inr ?wg" using tmul_gate [of ?w b d ?g1] by simp
  have c: "sum_dim ?wg 1 = Inr ?c" using sum_dim1 [of ?wg b 2 d] by simp
  have step: "gate_step m fl hg i = Inr ?c"
    using assms(1,2,5) g(1) x1 y1 w g1 wg c
    by (simp add: gate_step_def getitem_def)
  have "elem ?c [r, j] = elem (fl ! i) [r, j] * elem (softmax g) [r, 0]
                  + elem (fl ! num_gates m) [r, j] * elem (softmax g) [r, 1]"
    if "r < b" "j < d" for r j
    using that by (auto simp: bc_index_def lessThan_Suc numeral_2_eq_2)
  with g step show ?thesis by (intro exI [of _ g] exI [of _ ?c]) simp
qed


lemma gate_loop_ok:
  assumes "\<forall>i\<in>set is. i < length fl \<and> shape (fl ! i) = [b, d] \<and> i < length (gates m)
              \<and> gates m ! i = nn_Linear k 2 (wt i) (bs i)"
    and "num_gates m < length fl" and "shape (fl ! num_gates m) = [b, d]" and "shape hg = [b, k]"
  shows "\<exists>cs. gate_loop m fl hg is acc = Inr (acc @ cs) \<and> length cs = length is
           \<and> (\<forall>c\<in>set cs. shape c = [b, d])"
  using assms(1)
proof (induction "is" arbitrary: acc)
  case Nil
  then show ?case by simp
next
  case (Cons i rest)
  obtain c where c: "gate_step m fl hg i = Inr c" "shape c = [b, d]"
    using gate_step_ok [of i fl m b d k "wt i" "bs i" hg] Cons.prems assms(2,3,4) by auto
  obtain cs where cs: "gate_loop m fl hg rest (acc @ [c]) = Inr ((acc @ [c]) @ cs)"
    "length cs = length rest" "\<forall>c\<in>set cs. shape c = [b, d]"
    using Cons.IH [of "acc @ [c]"] Cons.prems by auto
  show ?case
    using c cs by (intro exI [of _ "c # cs"]) simp
qed

lemma combine_slots_ok:
  assumes "length combine = 4" and "\<forall>c\<in>set combine. shape c = [b, d]" and "4 \<le> length fl"
  shows "\<exists>c1. combine_slots fl combine = Inr [fl ! 0, c1, fl ! 1, fl ! 2, fl ! 3] \<and> shape c1 = [b, d]"
proof -
  have sh: "shape (combine ! j) = [b, d]" if "j < 4" for j
    using assms(1,2) that by (metis nth_mem)
  obtain s1 where s1: "tadd (combine ! 0) (combine ! 1) = Inr s1" "shape s1 = [b, d]"
    using tadd_same_shape [of "combine ! 0" "combine ! 1"] sh [of 0] sh [of 1] by auto
  obtain s2 where s2: "tadd s1 (combine ! 2) = Inr s2" "shape s2 = [b, d]"
    using tadd_same_shape [of s1 "combine ! 2"] s1(2) sh [of 2] by auto
  obtain s3 where s3: "tadd s2 (combine ! 3) = Inr s3" "shape s3 = [b, d]"
    using tadd_same_shape [of s2 "combine ! 3"] s2(2) sh [of 3] by auto
  show ?thesis
    using assms(1,3) s1 s2 s3 by (auto simp: combine_slots_def getitem_def)
qed

lemma combine_slots_length:
  "combine_slots fl combine = Inr c2 \<Longrightarrow> length c2 = 5"
  by (auto simp: combine_slots_def bnd_eq_Inr)

lemma fc_layer_forward_ok:
  assumes "shape x = [b, i]" and "\<not> (tr \<and> b = 1)"
  shows "\<exists>y. fc_layer_forward (fc_layer_init p i h tr \<theta> name k) x = Inr y \<and> shape y = [b, h]"
proof -
  let ?l = "fc_layer_init p i h tr \<theta> name k"
  let ?x = "\<lparr>shape = shape x, elem = (\<lambda>idx. elem x idx * fc_dropout ?l idx)\<rparr>"
  obtain y where y: "Linear_forward (fc_linear ?l) ?x = Inr y" "shape y = [b, h]"
    using nn_Linear_forward_ok [of ?x "[b]" i h] assms(1) by (fastforce simp: fc_layer_init_def)
  obtain z where "BatchNorm1d_forward (fc_bn ?l) (pointwise relu y) = Inr z" "shape z = [b, h]"
    using BatchNorm1d_forward_ok [of "pointwise relu y" b "fc_bn ?l"] y(2) assms(2)
    by (auto simp: fc_layer_init_def nn_BatchNorm1d_def pointwise_def)
  with y show ?thesis by (simp add: fc_layer_forward_def)
qed

lemma fc_loop_append:
  "fc_loop m c2 (is @ js) acc = bnd (fc_loop m c2 is acc) (fc_loop m c2 js)"
proof (induction "is" arbitrary: acc)
  case Nil
  then show ?case by simp
next
  case (Cons i rest)
  show ?case
    by (simp add: Cons.IH bnd_def split: sum.splits)
qed


lemma fc_loop_in_range:
  "fc_loop m c2 is acc = Inr r \<Longrightarrow> \<forall>i\<in>set is. i < length c2"
proof (induction "is" arbitrary: acc)
  case Nil
  then show ?case by simp
next
  case (Cons i rest)
  from Cons.prems have "i < length c2"
    by (auto simp: bnd_eq_Inr getitem_def split: if_splits)
  moreover from Cons.prems obtain acc' where "fc_loop m c2 rest acc' = Inr r"
    by (auto simp: bnd_eq_Inr)
  ultimately show ?case using Cons.IH by auto
qed

lemma fc_step_ok:
  assumes "j < length c2" and "shape (c2 ! j) = [b, d]" and "j < nat n" and "\<not> (tr \<and> b = 1)"
    and "j = 0 \<or> (\<exists>q. acc = Some q \<and> shape q = [b, j])"
  shows "\<exists>q. fc_loop (MTGL_ADMET_init i h d n rw c p tr \<theta>) c2 (j # rest) acc
               = fc_loop (MTGL_ADMET_init i h d n rw c p tr \<theta>) c2 rest (Some q)
           \<and> shape q = [b, Suc j]"
proof -
  let ?m = "MTGL_ADMET_init i h d n rw c p tr \<theta>"
  have l1: "getitem (fc_layers1 ?m) j = Inr (fc_layer_init p d c tr \<theta> ''fc_layers1'' j)"
    and l2: "getitem (fc_layers2 ?m) j = Inr (fc_layer_init p c c tr \<theta> ''fc_layers2'' j)"
    and l3: "getitem (output_layer1 ?m) j = Inr (output_layer c 1 \<theta> ''output_layer1'' j)"
    using assms(3) by (simp_all add: MTGL_ADMET_init_sel getitem_def py_range_def)
  have c0: "getitem c2 j = Inr (c2 ! j)" using assms(1) by (rule getitem_Inr)
  obtain h1 where h1: "fc_layer_forward (fc_layer_init p d c tr \<theta> ''fc_layers1'' j) (c2 ! j) = Inr h1"
    "shape h1 = [b, c]"
    using fc_layer_forward_ok [OF assms(2,4)] by blast
  obtain h2 where h2: "fc_layer_forward (fc_layer_init p c c tr \<theta> ''fc_layers2'' j) h1 = Inr h2"
    "shape h2 = [b, c]"
    using fc_layer_forward_ok [OF h1(2) assms(4)] by blast
  obtain pr where pr: "Linear_forward (output_layer c 1 \<theta> ''output_layer1'' j) h2 = Inr pr"
    "shape pr = [b, 1]"
    using nn_Linear_forward_ok [of h2 "[b]" c 1] h2(2) by (fastforce simp: output_layer_def)
  show ?thesis
  proof (cases "j = 0")
    case True
    then show ?thesis
      using c0 l1 l2 l3 h1 h2 pr by (intro exI [of _ pr]) simp
  next
    case False
    with assms(5) obtain q where q: "acc = Some q" "shape q = [b, j]" by auto
    obtain r where r: "cat q pr 1 = Inr r" "shape r = [b, j + 1]"
      using cat_columns [OF q(2) pr(2)] by blast
    show ?thesis
      using False c0 l1 l2 l3 h1 h2 pr q r by (intro exI [of _ r]) simp
  qed
qed

lemma fc_loop_upt:
  assumes "k \<le> length c2" and "\<forall>j<k. shape (c2 ! j) = [b, d]" and "k \<le> nat n"
    and "\<not> (tr \<and> b = 1)"
  shows "j \<le> k \<Longrightarrow> j = 0 \<or> (\<exists>q. acc = Some q \<and> shape q = [b, j]) \<Longrightarrow>
         \<exists>r. fc_loop (MTGL_ADMET_init i h d n rw c p tr \<theta>) c2 ([j..<k] @ rest) acc
               = fc_loop (MTGL_ADMET_init i h d n rw c p tr \<theta>) c2 rest r
           \<and> (if j = k then r = acc else \<exists>q. r = Some q \<and> shape q = [b, k])"
proof (induction "k - j" arbitrary: j acc)
  case 0
  then show ?case by simp
next
  case (Suc x)
  then have lt: "j < k" by simp
  obtain q where q:
    "fc_loop (MTGL_ADMET_init i h d n rw c p tr \<theta>) c2 (j # [Suc j..<k] @ rest) acc
       = fc_loop (MTGL_ADMET_init i h d n rw c p tr \<theta>) c2 ([Suc j..<k] @ rest) (Some q)"
    "shape q = [b, Suc j]"
    using fc_step_ok [of j c2 b d n tr acc i h rw c p \<theta> "[Suc j..<k] @ rest"] lt assms Suc.prems(2)
    by auto
  have "x = k - Suc j" using Suc.hyps(2) by simp
  from Suc.hyps(1) [OF this, of "Some q"] q(2) lt
  obtain r where r:
    "fc_loop (MTGL_ADMET_init i h d n rw c p tr \<theta>) c2 ([Suc j..<k] @ rest) (Some q)
       = fc_loop (MTGL_ADMET_init i h d n rw c p tr \<theta>) c2 rest r"
    "if Suc j = k then r = Some q else \<exists>q. r = Some q \<and> shape q = [b, k]"
    by auto
  have ex: "\<exists>q. r = Some q \<and> shape q = [b, k]"
    using r(2) q(2) by (auto split: if_splits)
  have e: "[j..<k] @ rest = j # [Suc j..<k] @ rest"
    using lt by (simp add: upt_conv_Cons)
  have "fc_loop (MTGL_ADMET_init i h d n rw c p tr \<theta>) c2 ([j..<k] @ rest) acc
          = fc_loop (MTGL_ADMET_init i h d n rw c p tr \<theta>) c2 rest r"
    by (simp only: e q(1) r(1))
  with ex lt show ?case by auto
qed

lemma mean_nodes_ok:
  "ndata g k = Some t \<Longrightarrow> 0 \<notin> set (tl (shape t)) \<Longrightarrow>
   \<exists>hg. mean_nodes k g = (Inr hg, g) \<and> shape hg = batch_size g # tl (shape t)"
  by (simp add: mean_nodes_def bindS_def get_ndata_def segment_reduce_def shape_segment_sum)

lemma bind_feats_list_init:
  "bind_feats_list (MTGL_ADMET_init i h d n rw c p tr \<theta>)
     (if rw then FeatsAndWeights fl al else Feats fl) = Inr fl"
  by (simp add: bind_feats_list_def MTGL_ADMET_init_sel)

lemma forward_reduces:
  assumes "gnn (MTGL_ADMET_init i h d n rw c p tr \<theta>) bg x = Inr nf"
  shows "\<exists>fl hg. shape nf = [num_nodes bg, d]
           \<and> length fl = nat n
           \<and> (\<forall>k<nat n. shape (fl ! k) = [batch_size bg, d]
                 \<and> (\<exists>w. specific_scope (WeightAndSum_init d n True rw \<theta> ''weighted_sum_readout'')
                            nf k bg = (Inr (fl ! k, w), bg)))
           \<and> shape hg = [batch_size bg, d]
           \<and> MTGL_ADMET_forward (MTGL_ADMET_init i h d n rw c p tr \<theta>) x bg
               = (predict_from (MTGL_ADMET_init i h d n rw c p tr \<theta>) fl hg,
                  bg\<lparr>ndata := (ndata bg)(''h'' \<mapsto> nf)\<rparr>)"
proof -
  let ?m = "MTGL_ADMET_init i h d n rw c p tr \<theta>"
  let ?ws = "WeightAndSum_init d n True rw \<theta> ''weighted_sum_readout''"
  from gnn_Inr [OF assms] have nf: "shape nf = [num_nodes bg, d]" and d: "0 < d" by simp_all
  obtain fl al where r:
    "WeightAndSum_forward ?ws nf bg = (Inr (if rw then FeatsAndWeights fl al else Feats fl), bg)"
    "length fl = nat n"
    "\<forall>k<nat n. specific_scope ?ws nf k bg = (Inr (fl ! k, al ! k), bg)"
    using WeightAndSum_forward_ok [OF nf d, of n True rw \<theta> "''weighted_sum_readout''"] by auto
  have sh: "shape (fl ! k) = [batch_size bg, d]" if "k < nat n" for k
    using specific_scope_ok [OF nf that d, of True rw \<theta> "''weighted_sum_readout''"] r(3) that
    by (auto simp: shape_segment_sum)
  let ?g = "bg\<lparr>ndata := (ndata bg)(''h'' \<mapsto> nf)\<rparr>"
  have set: "set_ndata ''h'' nf bg = (Inr (), ?g)"
    using set_ndata_ok [of nf bg "[d]"] nf by simp
  obtain hg where hg: "mean_nodes ''h'' ?g = (Inr hg, ?g)" "shape hg = [batch_size bg, d]"
    using mean_nodes_ok [of ?g "''h''" nf] nf d by auto
  have "MTGL_ADMET_forward ?m x bg = (predict_from ?m fl hg, ?g)"
    using assms r(1) set hg(1)
    by (simp add: MTGL_ADMET_forward_def bindS_def liftS_def MTGL_ADMET_init_sel
        bind_feats_list_init)
  with nf r(2,3) sh hg(2) show ?thesis by blast
qed

lemma gate_loop_first:
  "gate_loop m fl hg (i # rest) acc = Inr cs \<Longrightarrow> \<exists>c. gate_step m fl hg i = Inr c"
  by (auto simp: bnd_eq_Inr)

lemma gate_step_Inr:
  "gate_step m fl hg i = Inr c \<Longrightarrow>
   num_gates m < length fl \<and> i < length (gates m) \<and> shape hg \<noteq> []
   \<and> last (shape hg) = in_features (gates m ! i)"
  by (auto simp: gate_step_def bnd_eq_Inr getitem_def dest!: Linear_forward_Inr split: if_splits)

lemma predict_from_Inr:
  assumes "predict_from m fl hg = Inr y" and "num_gates m = 4"
  shows "4 < length fl \<and> 0 < length (gates m) \<and> shape hg \<noteq> []
         \<and> last (shape hg) = in_features (gates m ! 0) \<and> nat (task_num m) \<le> 5"
proof -
  from assms obtain combine c2 r where
    1: "gate_loop m fl hg [0..<4] [] = Inr combine" and
    2: "combine_slots fl combine = Inr c2" and
    3: "fc_loop m c2 (py_range (task_num m)) None = Inr r"
    by (auto simp: predict_from_def bnd_eq_Inr)
  have "[0..<4] = 0 # [1..<4]" by (simp add: upt_conv_Cons)
  with 1 obtain c where "gate_step m fl hg 0 = Inr c"
    using gate_loop_first [of m fl hg 0 "[1..<4]" "[]" combine] by auto
  from gate_step_Inr [OF this] assms(2)
  have a: "4 < length fl \<and> 0 < length (gates m) \<and> shape hg \<noteq> []
         \<and> last (shape hg) = in_features (gates m ! 0)" by simp
  have "nat (task_num m) \<le> 5"
  proof (rule ccontr)
    assume "\<not> nat (task_num m) \<le> 5"
    then have "5 \<in> set (py_range (task_num m))" by (simp add: py_range_def)
    with fc_loop_in_range [OF 3] combine_slots_length [OF 2] show False by auto
  qed
  with a show ?thesis by simp
qed

lemma upt_4: "[0..<4] = [0, 1, 2, 3]"
  by (simp add: upt_conv_Cons)


lemma predict_from_gate_width:
  assumes "length fl = nat n" and "5 \<le> nat n" and "\<forall>k<nat n. shape (fl ! k) = [b, d]"
    and "shape hg = [b, d]" and "d \<noteq> 64"
  shows "predict_from (MTGL_ADMET_init i h d n rw c p tr \<theta>) fl hg = Inl ShapeError"
proof -
  let ?m = "MTGL_ADMET_init i h d n rw c p tr \<theta>"
  have 0: "shape (fl ! 0) = [b, d]" and 4: "shape (fl ! 4) = [b, d]"
    using assms(2,3) by simp_all
  have g: "getitem (gates ?m) 0 = Inr (nn_Linear 64 2 (\<theta> ''gates.weight'' 0) (\<theta> ''gates.bias'' 0))"
    using assms(2) by (simp add: MTGL_ADMET_init_sel getitem_def py_range_def)
  have l: "Linear_forward (nn_Linear 64 2 (\<theta> ''gates.weight'' 0) (\<theta> ''gates.bias'' 0)) hg
             = Inl ShapeError"
    using assms(4,5) by (simp add: Linear_forward_def nn_Linear_def)
  have "gate_step ?m fl hg 0 = Inl ShapeError"
    using unsqueeze_dim1 [OF 0] unsqueeze_dim1 [OF 4] assms(1,2) g l
      cat_dim1 [of "\<lparr>shape = [b, 1, d], elem = (\<lambda>idx. elem (fl ! 0) (take 1 idx @ drop 2 idx))\<rparr>"
        b 1 d "\<lparr>shape = [b, 1, d], elem = (\<lambda>idx. elem (fl ! 4) (take 1 idx @ drop 2 idx))\<rparr>" 1]
    by (simp add: gate_step_def getitem_def MTGL_ADMET_init_sel)
  then show ?thesis
    by (simp add: predict_from_def MTGL_ADMET_init_sel upt_4)
qed

lemma predict_from_slots:
  assumes "length fl = nat n" and "5 \<le> nat n" and "\<forall>k<nat n. shape (fl ! k) = [b, 64]"
    and "shape hg = [b, 64]"
  shows "\<exists>c2. predict_from (MTGL_ADMET_init i h 64 n rw c p tr \<theta>) fl hg
               = bnd (fc_loop (MTGL_ADMET_init i h 64 n rw c p tr \<theta>) c2 (py_range n) None)
                   (\<lambda>prediction_all. case prediction_all of None \<Rightarrow> Inl UnboundLocalError
                                       | Some q \<Rightarrow> Inr q)
           \<and> length c2 = 5 \<and> (\<forall>j<5. shape (c2 ! j) = [b, 64])"
proof -
  let ?m = "MTGL_ADMET_init i h 64 n rw c p tr \<theta>"
  have "\<forall>k\<in>set [0..<4]. k < length fl \<and> shape (fl ! k) = [b, 64] \<and> k < length (gates ?m)
          \<and> gates ?m ! k = nn_Linear 64 2 (\<theta> ''gates.weight'' k) (\<theta> ''gates.bias'' k)"
    using assms(1,2,3) by (simp add: MTGL_ADMET_init_sel py_range_def)
  from gate_loop_ok [OF this, of hg "[]"] assms
  obtain cs where cs: "gate_loop ?m fl hg [0..<4] [] = Inr cs" "length cs = 4"
    "\<forall>c\<in>set cs. shape c = [b, 64]"
    by (auto simp: MTGL_ADMET_init_sel)
  obtain c1 where c1: "combine_slots fl cs = Inr [fl ! 0, c1, fl ! 1, fl ! 2, fl ! 3]"
    "shape c1 = [b, 64]"
    using combine_slots_ok [OF cs(2,3), of fl] assms(1,2) by auto
  let ?c2 = "[fl ! 0, c1, fl ! 1, fl ! 2, fl ! 3]"
  have "\<forall>j<5. shape (?c2 ! j) = [b, 64]"
    using assms(2,3) c1(2) by (auto simp: nth_Cons split: nat.splits)
  moreover have "predict_from ?m fl hg
      = bnd (fc_loop ?m ?c2 (py_range n) None)
          (\<lambda>prediction_all. case prediction_all of None \<Rightarrow> Inl UnboundLocalError | Some q \<Rightarrow> Inr q)"
    using cs(1) c1(1) by (simp add: predict_from_def MTGL_ADMET_init_sel)
  ultimately show ?thesis by (intro exI [of _ ?c2]) simp
qed

lemma predict_from_five_tasks:
  assumes "length fl = 5" and "\<forall>k<5. shape (fl ! k) = [b, 64]"
    and "shape hg = [b, 64]" and "\<not> (tr \<and> b = 1)"
  shows "\<exists>y. predict_from (MTGL_ADMET_init i h 64 5 rw c p tr \<theta>) fl hg = Inr y \<and> shape y = [b, 5]"
proof -
  let ?m = "MTGL_ADMET_init i h 64 5 rw c p tr \<theta>"
  obtain c2 where c2: "predict_from ?m fl hg
               = bnd (fc_loop ?m c2 (py_range 5) None)
                   (\<lambda>prediction_all. case prediction_all of None \<Rightarrow> Inl UnboundLocalError
                                       | Some q \<Rightarrow> Inr q)"
    "length c2 = 5" "\<forall>j<5. shape (c2 ! j) = [b, 64]"
    using predict_from_slots [of fl 5 b hg i h rw c p tr \<theta>] assms(1,2,3) by auto
  obtain q where "fc_loop ?m c2 ([0..<5] @ []) None = fc_loop ?m c2 [] (Some q)" "shape q = [b, 5]"
    using fc_loop_upt [of 5 c2 b 64 5 tr 0 None i h rw c p \<theta> "[]"] c2(2,3) assms(4) by auto
  with c2(1) show ?thesis by (simp add: py_range_def)
qed


lemma forward_Inr:
  assumes "MTGL_ADMET_forward (MTGL_ADMET_init i h d n rw c p tr \<theta>) x bg = (Inr y, g')"
  shows "n = 5 \<and> d = 64 \<and> \<not> zero_in_degree bg \<and> \<not> (tr \<and> num_nodes bg = 1)
         \<and> (\<exists>nf. gnn (MTGL_ADMET_init i h d n rw c p tr \<theta>) bg x = Inr nf
                \<and> g' = bg\<lparr>ndata := (ndata bg)(''h'' \<mapsto> nf)\<rparr>)"
proof -
  let ?m = "MTGL_ADMET_init i h d n rw c p tr \<theta>"
  from assms obtain nf where nf: "gnn ?m bg x = Inr nf"
    by (auto simp: MTGL_ADMET_forward_def bindS_eq_Inr)
  from gnn_Inr [OF nf] have v: "\<not> zero_in_degree bg" "\<not> (tr \<and> num_nodes bg = 1)"
    by simp_all
  from forward_reduces [OF nf] obtain fl hg where
    r: "length fl = nat n" "shape hg = [batch_size bg, d]"
      "MTGL_ADMET_forward ?m x bg = (predict_from ?m fl hg, bg\<lparr>ndata := (ndata bg)(''h'' \<mapsto> nf)\<rparr>)"
    by blast
  from r(3) assms have p: "predict_from ?m fl hg = Inr y"
    and g: "g' = bg\<lparr>ndata := (ndata bg)(''h'' \<mapsto> nf)\<rparr>" by simp_all
  from predict_from_Inr [OF p] have
    a: "4 < length fl" "0 < length (gates ?m)" "last (shape hg) = in_features (gates ?m ! 0)"
      "nat n \<le> 5"
    by (simp_all add: MTGL_ADMET_init_sel)
  from a(1,4) r(1) have "nat n = 5" by simp
  then have n: "n = 5" by simp
  have "in_features (gates ?m ! 0) = 64"
    using a(2) by (simp add: MTGL_ADMET_init_sel nn_Linear_def)
  with a(3) r(2) have "d = 64" by simp
  with n v nf g show ?thesis by blast
qed

lemma forward_five_tasks:
  assumes "shape x = [num_nodes bg, i]" and "\<not> zero_in_degree bg" and "0 < i" and "0 < h"
    and "0 < c" and "\<not> (tr \<and> (num_nodes bg = 1 \<or> batch_size bg = 1))"
  shows "\<exists>y nf. MTGL_ADMET_forward (MTGL_ADMET_init i h 64 5 rw c p tr \<theta>) x bg
                   = (Inr y, bg\<lparr>ndata := (ndata bg)(''h'' \<mapsto> nf)\<rparr>)
           \<and> shape y = [batch_size bg, 5]"
proof -
  let ?m = "MTGL_ADMET_init i h 64 5 rw c p tr \<theta>"
  from assms(6) have v: "\<not> (tr \<and> num_nodes bg = 1)" and b: "\<not> (tr \<and> batch_size bg = 1)" by auto
  obtain nf where nf: "gnn ?m bg x = Inr nf"
    using gnn_ok [OF assms(1,2,3,4) _ v, of 64 5 rw c p \<theta>] by auto
  from forward_reduces [OF nf] obtain fl hg where
    r: "length fl = 5" "\<forall>k<5. shape (fl ! k) = [batch_size bg, 64]" "shape hg = [batch_size bg, 64]"
      "MTGL_ADMET_forward ?m x bg = (predict_from ?m fl hg, bg\<lparr>ndata := (ndata bg)(''h'' \<mapsto> nf)\<rparr>)"
    by auto
  from predict_from_five_tasks [OF r(1,2,3) b, of i h rw c p \<theta>] r(4) show ?thesis by auto
qed



lemma forward_gate_width:
  assumes "shape x = [num_nodes bg, i]" and "\<not> zero_in_degree bg" and "0 < i" and "0 < h"
    and "0 < d" and "\<not> (tr \<and> num_nodes bg = 1)" and "5 \<le> n" and "d \<noteq> 64"
  shows "\<exists>nf. MTGL_ADMET_forward (MTGL_ADMET_init i h d n rw c p tr \<theta>) x bg
                 = (Inl ShapeError, bg\<lparr>ndata := (ndata bg)(''h'' \<mapsto> nf)\<rparr>)"
proof -
  let ?m = "MTGL_ADMET_init i h d n rw c p tr \<theta>"
  obtain nf where nf: "gnn ?m bg x = Inr nf"
    using gnn_ok [OF assms(1,2,3,4,5,6), of n rw c p \<theta>] by auto
  from forward_reduces [OF nf] obtain fl hg where
    r: "length fl = nat n" "\<forall>k<nat n. shape (fl ! k) = [batch_size bg, d]"
      "shape hg = [batch_size bg, d]"
      "MTGL_ADMET_forward ?m x bg = (predict_from ?m fl hg, bg\<lparr>ndata := (ndata bg)(''h'' \<mapsto> nf)\<rparr>)"
    by auto
  have "5 \<le> nat n" using assms(7) by simp
  from predict_from_gate_width [OF r(1) this r(2,3) assms(8), of i h rw c p tr \<theta>] r(4)
  show ?thesis by auto
qed

section \<open>ResGCNLayer without the residual connection\<close>

text \<open>
  Claim C4. The claim is that a layer built with \<^verbatim>\<open>residual=False\<close> returns features
  of the same shape as one built with \<^verbatim>\<open>residual=True\<close>. On the example batch, with
  74 input features and 128 output features, the layer with the residual connection
  returns a tensor of shape (8, 128); the layer without it reaches
  \<^verbatim>\<open>del res_feats\<close> with \<^verbatim>\<open>res_feats\<close> unbound and raises instead of returning.
\<close>

theorem ResGCNLayer_forward_residual_off:
  "ResGCNLayer_forward (ResGCNLayer_init 74 128 relu False True True zero_params ''conv1'')
     mol_batch (atom_feats 74) = Inl UnboundLocalError
   \<and> map_sum id shape
       (ResGCNLayer_forward (ResGCNLayer_init 74 128 relu True True True zero_params ''conv1'')
          mol_batch (atom_feats 74)) = Inr [8, 128]"
  using ResGCNLayer_forward_no_residual [of "atom_feats 74" mol_batch 74 128 True True relu
      zero_params "''conv1''"]
    ResGCNLayer_forward_ok [of "atom_feats 74" mol_batch 74 128 True True relu
      zero_params "''conv1''"]
  by (auto simp: num_nodes_mol_batch shape_atom_feats zero_in_degree_mol_batch)


section \<open>The forward pass of the model\<close>

text \<open>
  An input is called valid below when the node features have shape (nodes, in_feats),
  every node of the graph has an incoming edge (the graph convolution refuses a graph
  with a node of in-degree 0), the widths of the layers are positive (the message
  passing and the segment reduction refuse features of width 0), and, in training
  mode, the batch has more than one node and more than one graph, which batch
  normalisation needs.
\<close>




text \<open>
  Claim C10. Whatever \<^verbatim>\<open>gnn_out_feats\<close> is, every gate the constructor builds takes
  64 inputs. A round of the gating loop gets past its gate only when the tensor the
  gate is applied to has width 64; \<^verbatim>\<open>forward\<close> applies the gates to \<^verbatim>\<open>hg\<close>, of
  width \<^verbatim>\<open>gnn_out_feats\<close>, so it returns only when \<^verbatim>\<open>gnn_out_feats\<close> is 64, and on a
  valid input (node features of shape (nodes, in_feats), no node of in-degree 0,
  positive widths, more than one node in training mode) with at least 5 tasks any
  other width ends in the gate's dimension fault: nothing checks the width before.
\<close>

theorem gates_take_64_inputs:
  "(\<forall>k<length (gates (MTGL_ADMET_init i h d n rw c p tr \<theta>)).
       in_features (gates (MTGL_ADMET_init i h d n rw c p tr \<theta>) ! k) = 64)
   \<and> (gate_step (MTGL_ADMET_init i h d n rw c p tr \<theta>) fl hg k = Inr cc
       \<longrightarrow> shape hg \<noteq> [] \<and> last (shape hg) = 64)
   \<and> (MTGL_ADMET_forward (MTGL_ADMET_init i h d n rw c p tr \<theta>) x bg = (Inr y, g') \<longrightarrow> d = 64)
   \<and> (shape x = [num_nodes bg, i] \<and> \<not> zero_in_degree bg \<and> 0 < i \<and> 0 < h \<and> 0 < d
        \<and> \<not> (tr \<and> num_nodes bg = 1) \<and> 5 \<le> n \<and> d \<noteq> 64
      \<longrightarrow> fst (MTGL_ADMET_forward (MTGL_ADMET_init i h d n rw c p tr \<theta>) x bg) = Inl ShapeError)"
proof (intro conjI impI allI)
  fix k
  assume "k < length (gates (MTGL_ADMET_init i h d n rw c p tr \<theta>))"
  then show "in_features (gates (MTGL_ADMET_init i h d n rw c p tr \<theta>) ! k) = 64"
    by (simp add: MTGL_ADMET_init_sel nn_Linear_def)
next
  assume s: "gate_step (MTGL_ADMET_init i h d n rw c p tr \<theta>) fl hg k = Inr cc"
  from gate_step_Inr [OF s] show "shape hg \<noteq> []" by simp
  from gate_step_Inr [OF s] show "last (shape hg) = 64"
    by (simp add: MTGL_ADMET_init_sel nn_Linear_def)
next
  assume "MTGL_ADMET_forward (MTGL_ADMET_init i h d n rw c p tr \<theta>) x bg = (Inr y, g')"
  from forward_Inr [OF this] show "d = 64" by simp
next
  assume "shape x = [num_nodes bg, i] \<and> \<not> zero_in_degree bg \<and> 0 < i \<and> 0 < h \<and> 0 < d
        \<and> \<not> (tr \<and> num_nodes bg = 1) \<and> 5 \<le> n \<and> d \<noteq> 64"
  then have x: "shape x = [num_nodes bg, i]" and z: "\<not> zero_in_degree bg"
    and w: "0 < i" "0 < h" "0 < d" and v: "\<not> (tr \<and> num_nodes bg = 1)"
    and n: "5 \<le> n" and d: "d \<noteq> 64" by auto
  from forward_gate_width [OF x z w v n d, of rw c p \<theta>]
  show "fst (MTGL_ADMET_forward (MTGL_ADMET_init i h d n rw c p tr \<theta>) x bg) = Inl ShapeError"
    by auto
qed

theorem gates_take_64_inputs_witness:
  "map in_features (gates (MTGL_ADMET_init 74 128 32 5 False 128 0 True zero_params))
     = [64, 64, 64, 64, 64]
   \<and> fst (MTGL_ADMET_forward (MTGL_ADMET_init 74 128 32 5 False 128 0 True zero_params)
          (atom_feats 74) mol_batch) = Inl ShapeError
   \<and> fst (MTGL_ADMET_forward (MTGL_ADMET_init 74 128 65 5 False 128 0 True zero_params)
          (atom_feats 74) mol_batch) = Inl ShapeError
   \<and> map_sum id shape
       (gate_step (MTGL_ADMET_init 74 128 64 5 False 128 0 True zero_params)
          (replicate 5 (atom_feats 3)) (atom_feats 64) 0) = Inr [8, 3]
   \<and> map_sum id shape
       (fst (MTGL_ADMET_forward (MTGL_ADMET_init 74 128 64 5 False 128 0 True zero_params)
          (atom_feats 74) mol_batch)) = Inr [2, 5]"
proof -
  let ?m = "MTGL_ADMET_init 74 128 32 5 False 128 0 True zero_params"
  let ?m64 = "MTGL_ADMET_init 74 128 64 5 False 128 0 True zero_params"
  have len: "length (gates ?m) = 5" by (simp add: MTGL_ADMET_init_sel py_range_def)
  have "\<forall>k<5. in_features (gates ?m ! k) = 64"
    using gates_take_64_inputs [of 74 128 32 5 False 128 0 True zero_params] len by simp
  with len have 1: "map in_features (gates ?m) = [64, 64, 64, 64, 64]"
    by (auto simp: list_eq_iff_nth_eq nth_Cons split: nat.splits)
  have 2: "map_sum id shape (gate_step ?m64 (replicate 5 (atom_feats 3)) (atom_feats 64) 0)
             = Inr [8, 3]"
    using gate_step_ok [of 0 "replicate 5 (atom_feats 3)" ?m64 8 3 64
        "zero_params ''gates.weight'' 0" "zero_params ''gates.bias'' 0" "atom_feats 64"]
    by (auto simp: MTGL_ADMET_init_sel py_range_def atom_feats_def)
  have 3: "map_sum id shape (fst (MTGL_ADMET_forward ?m64 (atom_feats 74) mol_batch)) = Inr [2, 5]"
    using forward_five_tasks [of "atom_feats 74" mol_batch 74 128 128 True False 0 zero_params]
    by (auto simp: shape_atom_feats num_nodes_mol_batch batch_size_mol_batch
        zero_in_degree_mol_batch)
  from 1 2 3 show ?thesis
    using gates_take_64_inputs [of 74 128 32 5 False 128 0 True zero_params _ _ _ _
        "atom_feats 74" mol_batch]
      gates_take_64_inputs [of 74 128 65 5 False 128 0 True zero_params _ _ _ _
        "atom_feats 74" mol_batch]
    by (simp add: shape_atom_feats num_nodes_mol_batch zero_in_degree_mol_batch)
qed


text \<open>
  Claim C9. \<^verbatim>\<open>forward\<close> changes the graph it is given. On a valid input (node
  features of shape (nodes, in_feats), no node of in-degree 0, positive widths, more
  than one node in training mode) the two convolution blocks return the final node
  features, and the graph the call leaves behind is the input graph with these
  features stored under \<^verbatim>\<open>'h'\<close>, whether the call goes on to return or to raise; and
  whenever the call returns, the graph it leaves behind holds them under \<^verbatim>\<open>'h'\<close>.
\<close>

theorem forward_writes_h:
  "(shape x = [num_nodes bg, i] \<and> \<not> zero_in_degree bg \<and> 0 < i \<and> 0 < h \<and> 0 < d
      \<and> \<not> (tr \<and> num_nodes bg = 1)
      \<longrightarrow> (\<exists>nf. gnn (MTGL_ADMET_init i h d n rw c p tr \<theta>) bg x = Inr nf
             \<and> snd (MTGL_ADMET_forward (MTGL_ADMET_init i h d n rw c p tr \<theta>) x bg)
                 = bg\<lparr>ndata := (ndata bg)(''h'' \<mapsto> nf)\<rparr>))
   \<and> (MTGL_ADMET_forward (MTGL_ADMET_init i h d n rw c p tr \<theta>) x bg = (Inr y, g')
      \<longrightarrow> (\<exists>nf. gnn (MTGL_ADMET_init i h d n rw c p tr \<theta>) bg x = Inr nf
             \<and> g' = bg\<lparr>ndata := (ndata bg)(''h'' \<mapsto> nf)\<rparr> \<and> ndata g' ''h'' = Some nf))"
proof (intro conjI impI)
  assume "shape x = [num_nodes bg, i] \<and> \<not> zero_in_degree bg \<and> 0 < i \<and> 0 < h \<and> 0 < d
      \<and> \<not> (tr \<and> num_nodes bg = 1)"
  then have x: "shape x = [num_nodes bg, i]" and z: "\<not> zero_in_degree bg"
    and w: "0 < i" "0 < h" "0 < d" and v: "\<not> (tr \<and> num_nodes bg = 1)" by auto
  obtain nf where nf: "gnn (MTGL_ADMET_init i h d n rw c p tr \<theta>) bg x = Inr nf"
    using gnn_ok [OF x z w v, of n rw c p \<theta>] by auto
  from forward_reduces [OF nf] nf
  show "\<exists>nf. gnn (MTGL_ADMET_init i h d n rw c p tr \<theta>) bg x = Inr nf
             \<and> snd (MTGL_ADMET_forward (MTGL_ADMET_init i h d n rw c p tr \<theta>) x bg)
                 = bg\<lparr>ndata := (ndata bg)(''h'' \<mapsto> nf)\<rparr>"
    by auto
next
  assume "MTGL_ADMET_forward (MTGL_ADMET_init i h d n rw c p tr \<theta>) x bg = (Inr y, g')"
  from forward_Inr [OF this]
  show "\<exists>nf. gnn (MTGL_ADMET_init i h d n rw c p tr \<theta>) bg x = Inr nf
             \<and> g' = bg\<lparr>ndata := (ndata bg)(''h'' \<mapsto> nf)\<rparr> \<and> ndata g' ''h'' = Some nf"
    by auto
qed

theorem forward_writes_h_witness:
  "ndata mol_batch ''h'' = None
   \<and> ndata (snd (MTGL_ADMET_forward (MTGL_ADMET_init 74 128 64 5 False 128 0 True zero_params)
              (atom_feats 74) mol_batch)) ''h''
       = Some (projr (gnn (MTGL_ADMET_init 74 128 64 5 False 128 0 True zero_params) mol_batch
                        (atom_feats 74)))
   \<and> snd (MTGL_ADMET_forward (MTGL_ADMET_init 74 128 64 5 False 128 0 True zero_params)
              (atom_feats 74) mol_batch) \<noteq> mol_batch"
proof -
  let ?m = "MTGL_ADMET_init 74 128 64 5 False 128 0 True zero_params"
  obtain nf where nf: "gnn ?m mol_batch (atom_feats 74) = Inr nf"
    "snd (MTGL_ADMET_forward ?m (atom_feats 74) mol_batch)
       = mol_batch\<lparr>ndata := (ndata mol_batch)(''h'' \<mapsto> nf)\<rparr>"
    using forward_writes_h [of "atom_feats 74" mol_batch 74 128 64 True 5 False 128 0 zero_params]
    by (auto simp: shape_atom_feats num_nodes_mol_batch zero_in_degree_mol_batch)
  have none: "ndata mol_batch ''h'' = None" by (simp add: mol_batch_def)
  have "ndata (mol_batch\<lparr>ndata := (ndata mol_batch)(''h'' \<mapsto> nf)\<rparr>) ''h'' \<noteq> ndata mol_batch ''h''"
    using none by simp
  then have "mol_batch\<lparr>ndata := (ndata mol_batch)(''h'' \<mapsto> nf)\<rparr> \<noteq> mol_batch" by metis
  with nf none show ?thesis by simp
qed

text \<open>
  Claim C3. The claim is that a model constructed with 5 tasks returns predictions of
  shape (batch size, 5) on every valid input. On the example batch (two molecules, 74
  features per atom, 128 hidden features) the model with \<^verbatim>\<open>gnn_out_feats=32\<close> raises
  the dimension fault of its first gate, while the model with \<^verbatim>\<open>gnn_out_feats=64\<close>
  returns a tensor of shape (2, 5).
\<close>

theorem forward_with_gnn_out_feats_32:
  "fst (MTGL_ADMET_forward (MTGL_ADMET_init 74 128 32 5 False 128 0 True zero_params)
          (atom_feats 74) mol_batch) = Inl ShapeError
   \<and> map_sum id shape
       (fst (MTGL_ADMET_forward (MTGL_ADMET_init 74 128 64 5 False 128 0 True zero_params)
          (atom_feats 74) mol_batch)) = Inr [2, 5]"
  using forward_gate_width [of "atom_feats 74" mol_batch 74 128 32 True 5 False 128 0 zero_params]
    forward_five_tasks [of "atom_feats 74" mol_batch 74 128 128 True False 0 zero_params]
  by (auto simp: shape_atom_feats num_nodes_mol_batch batch_size_mol_batch
      zero_in_degree_mol_batch)

section \<open>What the readout hands to the gates\<close>










lemma softmax_two_way:
  assumes "shape g = [b, 2]"
  shows "elem (softmax g) [r, 0] + elem (softmax g) [r, 1] = 1
         \<and> 0 < elem (softmax g) [r, 0] \<and> 0 < elem (softmax g) [r, 1]"
proof -
  let ?s = "exp (elem g [r, 0]) + exp (elem g [r, 1])"
  have pos: "0 < ?s" by (simp add: add_pos_pos)
  have 0: "elem (softmax g) [r, 0] = exp (elem g [r, 0]) / ?s"
    and 1: "elem (softmax g) [r, 1] = exp (elem g [r, 1]) / ?s"
    using assms by (simp_all add: softmax_def lessThan_Suc numeral_2_eq_2)
  have "exp (elem g [r, 0]) / ?s + exp (elem g [r, 1]) / ?s = ?s / ?s"
    by (simp only: add_divide_distrib)
  also have "\<dots> = 1" using pos by simp
  finally have sum: "exp (elem g [r, 0]) / ?s + exp (elem g [r, 1]) / ?s = 1" .
  have "0 < exp (elem g [r, 0]) / ?s" "0 < exp (elem g [r, 1]) / ?s"
    using pos by simp_all
  with sum show ?thesis by (simp only: 0 1)
qed

text \<open>
  In exact arithmetic the two components of the softmax of a gate are positive and add
  up to 1 for every molecule, so the blend above is a convex combination. Rounding of
  machine floats is outside this development.
\<close>

theorem gate_softmax_sums_to_one:
  assumes "k < nat n" and "shape hg = [b, 64]"
  shows "\<exists>g. Linear_forward (gates (MTGL_ADMET_init i h d n rw c p tr \<theta>) ! k) hg = Inr g
           \<and> shape (softmax g) = [b, 2]
           \<and> (\<forall>r. elem (softmax g) [r, 0] + elem (softmax g) [r, 1] = 1
                 \<and> 0 < elem (softmax g) [r, 0] \<and> 0 < elem (softmax g) [r, 1])"
proof -
  have "gates (MTGL_ADMET_init i h d n rw c p tr \<theta>) ! k
          = nn_Linear 64 2 (\<theta> ''gates.weight'' k) (\<theta> ''gates.bias'' k)"
    using assms(1) by (simp add: MTGL_ADMET_init_sel py_range_def)
  then obtain g where g: "Linear_forward (gates (MTGL_ADMET_init i h d n rw c p tr \<theta>) ! k) hg = Inr g"
    "shape g = [b, 2]"
    using nn_Linear_forward_ok [of hg "[b]" 64 2] assms(2) by fastforce
  with softmax_two_way [OF g(2)] show ?thesis by (auto simp: shape_softmax)
qed

theorem gate_softmax_sums_to_one_witness:
  "(case Linear_forward (gates (MTGL_ADMET_init 74 128 64 5 False 128 0 True zero_params) ! 2)
           \<lparr>shape = [2, 64], elem = (\<lambda>idx. 1)\<rparr> of
      Inr g \<Rightarrow> elem (softmax g) [1, 0] + elem (softmax g) [1, 1] = 1
    | Inl e \<Rightarrow> False)"
proof -
  from gate_softmax_sums_to_one [of 2 5 "\<lparr>shape = [2, 64], elem = (\<lambda>idx. 1)\<rparr>" 2
      74 128 64 False 128 0 True zero_params]
  obtain g where
    "Linear_forward (gates (MTGL_ADMET_init 74 128 64 5 False 128 0 True zero_params) ! 2)
           \<lparr>shape = [2, 64], elem = (\<lambda>idx. 1)\<rparr> = Inr g"
    "\<forall>r. elem (softmax g) [r, 0] + elem (softmax g) [r, 1] = 1
                 \<and> 0 < elem (softmax g) [r, 0] \<and> 0 < elem (softmax g) [r, 1]"
    by auto
  then show ?thesis by simp
qed

end
